theory Spec2Isabelle
  imports Main "HOL-Library.Word"
begin

unbundle bit_operations_syntax

section \<open>The DSP interface of Source/Core/Core/HW/DSP.cpp\<close>

text \<open>
  The device state is the struct \<open>DSPState::Data\<close>; the collaborators the file calls
  (main memory, the HSP peripheral, the event scheduler, the audio sink and the
  processor interface's interrupt cause) are further fields of one record, so that
  every function of the file is a function from state to state.
\<close>

type_synonym u8 = "8 word"
type_synonym u16 = "16 word"
type_synonym u32 = "32 word"
type_synonym u64 = "64 word"

subsection \<open>Declarations of DSP.h\<close>

text \<open>
  Modelled from the spec: the header DSP.h (the enumeration \<open>DSPInterruptType\<close>, the
  constants \<open>ARAM_SIZE\<close>, \<open>ARAM_MASK\<close> and \<open>DSP_CONTROL_MASK\<close>, and the union
  \<open>UDSPControl\<close>) is not among the sources. The control register has the fields the
  spec lists: reset, DSP-assert, halt, three interrupt-pending bits and their enable
  masks, a DMA-in-progress flag, init-code, init-done and four bits of padding. The
  values below are the emulator's; what DSP.cpp itself says of them is that each enable
  mask is the bit directly to the left of its pending bit, that the \<open>INT_*\<close> values are
  the positions of the pending bits in the register, and that \<open>DSP_CONTROL_MASK\<close> covers
  the reset bit; the mask covers the bits the DSP engine computes (reset, assert, halt,
  init-code, init) and none of the interrupt bits. Bit-fields are allocated from the
  least significant bit, as for the unions declared in DSP.cpp.
\<close>

definition INT_DSP :: u64 where "INT_DSP = 0x80"
definition INT_ARAM :: u64 where "INT_ARAM = 0x20"
definition INT_AID :: u64 where "INT_AID = 0x08"

definition ARAM_SIZE :: u32 where "ARAM_SIZE = 0x01000000"
definition ARAM_MASK :: u32 where "ARAM_MASK = 0x00FFFFFF"

definition DSP_CONTROL_MASK :: u16 where "DSP_CONTROL_MASK = 0x0C07"

text \<open>Reading a field of \<open>UDSPControl\<close> from its \<open>Hex\<close> view.\<close>

definition DSPReset :: "u16 \<Rightarrow> bool" where "DSPReset h = bit h 0"
definition DSPAssertInt :: "u16 \<Rightarrow> bool" where "DSPAssertInt h = bit h 1"
definition DSPHalt :: "u16 \<Rightarrow> bool" where "DSPHalt h = bit h 2"
definition AID :: "u16 \<Rightarrow> bool" where "AID h = bit h 3"
definition AID_mask :: "u16 \<Rightarrow> bool" where "AID_mask h = bit h 4"
definition ARAM :: "u16 \<Rightarrow> bool" where "ARAM h = bit h 5"
definition ARAM_mask :: "u16 \<Rightarrow> bool" where "ARAM_mask h = bit h 6"
definition DSP :: "u16 \<Rightarrow> bool" where "DSP h = bit h 7"
definition DSP_mask :: "u16 \<Rightarrow> bool" where "DSP_mask h = bit h 8"
definition DMAState :: "u16 \<Rightarrow> bool" where "DMAState h = bit h 9"
definition DSPInitCode :: "u16 \<Rightarrow> bool" where "DSPInitCode h = bit h 10"
definition DSPInit :: "u16 \<Rightarrow> bool" where "DSPInit h = bit h 11"
definition pad :: "u16 \<Rightarrow> u16" where "pad h = drop_bit 12 h"

text \<open>Assigning a one-bit field, and the four-bit padding field.\<close>

definition assign_bit :: "nat \<Rightarrow> bool \<Rightarrow> u16 \<Rightarrow> u16" where
  "assign_bit n b h = (if b then set_bit n h else unset_bit n h)"

definition assign_pad :: "u16 \<Rightarrow> u16 \<Rightarrow> u16" where
  "assign_pad p h = (h AND 0x0FFF) OR push_bit 12 p"

subsection \<open>Unions and structs declared in DSP.cpp\<close>

text \<open>\<open>UARAMCount\<close>: \<open>count\<close> is the low 31 bits of \<open>Hex\<close>, \<open>dir\<close> is bit 31.\<close>

definition count :: "u32 \<Rightarrow> u32" where "count h = h AND 0x7FFFFFFF"
definition dir :: "u32 \<Rightarrow> bool" where "dir h = bit h 31"
definition assign_count :: "u32 \<Rightarrow> u32 \<Rightarrow> u32" where
  "assign_count v h = (h AND 0x80000000) OR (v AND 0x7FFFFFFF)"

text \<open>\<open>UAudioDMAControl\<close>: \<open>NumBlocks\<close> is the low 15 bits of \<open>Hex\<close>, \<open>Enable\<close> is bit 15.\<close>

definition NumBlocks :: "u16 \<Rightarrow> u16" where "NumBlocks h = h AND 0x7FFF"
definition Enable :: "u16 \<Rightarrow> bool" where "Enable h = bit h 15"

record AudioDMA =
  current_source_address :: u32
  remaining_blocks_count :: u16
  SourceAddress :: u32
  AudioDMAControl :: u16

record ARAM_DMA =
  MMAddr :: u32
  ARAddr :: u32
  Cnt :: u32

text \<open>
  \<open>ARAMInfo\<close>: \<open>ptr\<close> is the buffer the pointer refers to, a byte for every index; the
  fields \<open>size\<close> and \<open>mask\<close> carry a suffix because HOL has constants of these names.
\<close>

record ARAMInfo =
  wii_mode :: bool
  size_aram :: u32
  mask_aram :: u32
  ptr :: "nat \<Rightarrow> u8"

datatype EventType = DSPint | ARAMint

datatype SampleSource = GuestMemory u32 | zero_samples

record Data =
  aram :: ARAMInfo
  audio_dma :: AudioDMA
  aram_dma :: ARAM_DMA
  dsp_control :: u16
  aram_info :: u16
  aram_mode :: u16
  aram_refresh :: u16
  dsp_slice :: int
  is_lle :: bool

text \<open>
  Modelled from the spec: the collaborators Memmap, HSP, CoreTiming, AudioCommon and
  ProcessorInterface are not among the sources. Main memory is a byte for every 32-bit
  address, read and written in the console's big-endian order, \<open>ram_mask\<close> is the
  address mask of the current console mode; the HSP store holds a 64-bit value per
  address; the scheduler is the list of requests \<open>(delay, callback, payload)\<close> in the
  order they were made; the audio sink is the list of deliveries \<open>(samples, count)\<close>;
  the processor interface holds one asserted/deasserted signal for this device. The
  main memory the DMA reaches (below 64 MiB) and the buffer behind \<open>aram.ptr\<close> are
  separate stores, on a Wii too, where the buffer is the extended memory.
\<close>

record System = Data +
  ram :: "u32 \<Rightarrow> u8"
  ram_mask :: u32
  hsp :: "u32 \<Rightarrow> u64"
  scheduled :: "(int \<times> EventType \<times> u64) list"
  ai_sink :: "(SampleSource \<times> u32) list"
  int_cause_dsp :: bool
  panic_alerts :: "u16 list"

text \<open>
  Modelled from the spec: \<open>CoreTiming::ScheduleEvent\<close>, \<open>AudioCommon::SendAIBuffer\<close>
  and \<open>ProcessorInterface::SetInterrupt\<close> (for the cause of this device) record the
  request, the delivery and the signal.
\<close>

definition ScheduleEvent :: "int \<Rightarrow> EventType \<Rightarrow> u64 \<Rightarrow> System \<Rightarrow> System" where
  "ScheduleEvent cycles_into_future event_type userdata s =
     s\<lparr>scheduled := scheduled s @ [(cycles_into_future, event_type, userdata)]\<rparr>"

definition SendAIBuffer :: "SampleSource \<Rightarrow> u32 \<Rightarrow> System \<Rightarrow> System" where
  "SendAIBuffer samples num_samples s = s\<lparr>ai_sink := ai_sink s @ [(samples, num_samples)]\<rparr>"

definition SetInterrupt :: "bool \<Rightarrow> System \<Rightarrow> System" where
  "SetInterrupt set_it s = s\<lparr>int_cause_dsp := set_it\<rparr>"

subsection \<open>Interrupts\<close>

definition UpdateInterrupts :: "System \<Rightarrow> System" where
  "UpdateInterrupts s =
     (let ints_set =
            (drop_bit 1 (ucast (dsp_control s) :: u64) AND ucast (dsp_control s) AND
               (INT_DSP OR INT_ARAM OR INT_AID) \<noteq> 0)
      in SetInterrupt ints_set s)"

definition GenerateDSPInterrupt :: "u64 \<Rightarrow> int \<Rightarrow> System \<Rightarrow> System" where
  "GenerateDSPInterrupt DSPIntType cyclesLate s =
     UpdateInterrupts
       (s\<lparr>dsp_control :=
            ucast ((ucast (dsp_control s) :: u64) OR
                   (DSPIntType AND (INT_DSP OR INT_ARAM OR INT_AID)))\<rparr>)"

definition CompleteARAM :: "u64 \<Rightarrow> int \<Rightarrow> System \<Rightarrow> System" where
  "CompleteARAM userdata cyclesLate s =
     GenerateDSPInterrupt INT_ARAM 0 (s\<lparr>dsp_control := assign_bit 9 False (dsp_control s)\<rparr>)"

definition GenerateDSPInterruptFromDSPEmu :: "u64 \<Rightarrow> int \<Rightarrow> System \<Rightarrow> System" where
  "GenerateDSPInterruptFromDSPEmu type cycles_into_future s =
     ScheduleEvent cycles_into_future DSPint type s"

text \<open>The callbacks registered by \<open>Init\<close> under the names "DSPint" and "ARAMint".\<close>

fun fire :: "EventType \<Rightarrow> u64 \<Rightarrow> int \<Rightarrow> System \<Rightarrow> System" where
  "fire DSPint userdata cyclesLate s = GenerateDSPInterrupt userdata cyclesLate s"
| "fire ARAMint userdata cyclesLate s = CompleteARAM userdata cyclesLate s"

subsection \<open>Reinit\<close>

text \<open>
  Modelled from the spec: what \<open>Reinit\<close> takes from outside the file, namely the
  console revision (\<open>SConfig\<close>), the extended memory's real size, mask and buffer
  (\<open>Memory\<close>), the pages the allocator returns, and whether the DSP engine created for
  the flag \<open>hle\<close> is the low-level one.
\<close>

record Host =
  bWii :: bool
  ExRamSizeReal :: u32
  ExRamMask :: u32
  pEXRAM :: "nat \<Rightarrow> u8"
  AllocateMemoryPages :: "nat \<Rightarrow> u8"
  IsLLE :: "bool \<Rightarrow> bool"

definition Reinit :: "Host \<Rightarrow> bool \<Rightarrow> System \<Rightarrow> System" where
  "Reinit host hle s =
     (let s1 = s\<lparr>is_lle := IsLLE host hle\<rparr>;
          s2 = (if bWii host
                then s1\<lparr>aram := \<lparr>wii_mode = True, size_aram = ExRamSizeReal host,
                                  mask_aram = ExRamMask host, ptr = pEXRAM host\<rparr>\<rparr>
                else s1\<lparr>aram := \<lparr>wii_mode = False, size_aram = ARAM_SIZE,
                                  mask_aram = ARAM_MASK, ptr = AllocateMemoryPages host\<rparr>\<rparr>);
          s3 = s2\<lparr>audio_dma := \<lparr>current_source_address = 0, remaining_blocks_count = 0,
                                  SourceAddress = 0, AudioDMAControl = 0\<rparr>\<rparr>;
          s4 = s3\<lparr>aram_dma := \<lparr>MMAddr = 0, ARAddr = 0, Cnt = 0\<rparr>\<rparr>;
          s5 = s4\<lparr>dsp_control := 0\<rparr>;
          s6 = s5\<lparr>dsp_control := assign_bit 2 True (dsp_control s5)\<rparr>;
          s7 = s6\<lparr>aram_info := 0\<rparr>;
          s8 = s7\<lparr>aram_mode := 1\<rparr>
      in s8\<lparr>aram_refresh := 156\<rparr>)"

definition Init :: "Host \<Rightarrow> bool \<Rightarrow> System \<Rightarrow> System" where
  "Init host hle s = Reinit host hle s"

subsection \<open>The control register\<close>

text \<open>
  The write handler of \<open>DSP_CONTROL\<close>. \<open>DSP_WriteControlRegister\<close> is the DSP engine's
  function of that name: any function of the written value.
\<close>

definition DSP_CONTROL_write :: "(u16 \<Rightarrow> u16) \<Rightarrow> u16 \<Rightarrow> System \<Rightarrow> System" where
  "DSP_CONTROL_write DSP_WriteControlRegister val s =
     (let tmpControl = (val AND NOT DSP_CONTROL_MASK) OR
                       (DSP_WriteControlRegister val AND DSP_CONTROL_MASK);
          s1 = (if val AND 1 \<noteq> 0
                then s\<lparr>audio_dma := (audio_dma s)\<lparr>AudioDMAControl := 0\<rparr>\<rparr> else s);
          c1 = assign_bit 0 (DSPReset tmpControl) (dsp_control s1);
          c2 = assign_bit 1 (DSPAssertInt tmpControl) c1;
          c3 = assign_bit 2 (DSPHalt tmpControl) c2;
          c4 = assign_bit 10 (DSPInitCode tmpControl) c3;
          c5 = assign_bit 11 (DSPInit tmpControl) c4;
          c6 = assign_bit 4 (AID_mask tmpControl) c5;
          c7 = assign_bit 6 (ARAM_mask tmpControl) c6;
          c8 = assign_bit 8 (DSP_mask tmpControl) c7;
          c9 = (if AID tmpControl then assign_bit 3 False c8 else c8);
          c10 = (if ARAM tmpControl then assign_bit 5 False c9 else c9);
          c11 = (if DSP tmpControl then assign_bit 7 False c10 else c10);
          c12 = assign_pad (pad tmpControl) c11;
          s2 = s1\<lparr>dsp_control := c12\<rparr>;
          s3 = (if pad (dsp_control s2) \<noteq> 0
                then s2\<lparr>panic_alerts := panic_alerts s2 @ [val]\<rparr> else s2)
      in UpdateInterrupts s3)"

definition DSP_CONTROL_read :: "u16 \<Rightarrow> System \<Rightarrow> u16" where
  "DSP_CONTROL_read DSP_ReadControlRegister s =
     (dsp_control s AND NOT DSP_CONTROL_MASK) OR (DSP_ReadControlRegister AND DSP_CONTROL_MASK)"

subsection \<open>The Audio DMA engine\<close>

definition AUDIO_DMA_CONTROL_LEN_write :: "u16 \<Rightarrow> System \<Rightarrow> System" where
  "AUDIO_DMA_CONTROL_LEN_write val s =
     (let already_enabled = Enable (AudioDMAControl (audio_dma s));
          s1 = s\<lparr>audio_dma := (audio_dma s)\<lparr>AudioDMAControl := val\<rparr>\<rparr>
      in if \<not> already_enabled \<and> Enable (AudioDMAControl (audio_dma s1))
         then
           let s2 = s1\<lparr>audio_dma := (audio_dma s1)
                        \<lparr>current_source_address := SourceAddress (audio_dma s1)\<rparr>\<rparr>;
               s3 = s2\<lparr>audio_dma := (audio_dma s2)
                        \<lparr>remaining_blocks_count := NumBlocks (AudioDMAControl (audio_dma s2))\<rparr>\<rparr>;
               address = GuestMemory (SourceAddress (audio_dma s3));
               s4 = SendAIBuffer address
                      (ucast (NumBlocks (AudioDMAControl (audio_dma s3))) * 8) s3
           in ScheduleEvent 200 DSPint INT_AID s4
         else s1)"

definition AUDIO_DMA_BLOCKS_LEFT_read :: "System \<Rightarrow> u16" where
  "AUDIO_DMA_BLOCKS_LEFT_read s =
     (if remaining_blocks_count (audio_dma s) > 0
      then remaining_blocks_count (audio_dma s) - 1
      else 0)"

definition UpdateAudioDMA :: "System \<Rightarrow> System" where
  "UpdateAudioDMA s =
     (if Enable (AudioDMAControl (audio_dma s))
      then
        let s1 = (if remaining_blocks_count (audio_dma s) \<noteq> 0
                  then s\<lparr>audio_dma := (audio_dma s)
                          \<lparr>remaining_blocks_count := remaining_blocks_count (audio_dma s) - 1,
                           current_source_address := current_source_address (audio_dma s) + 32\<rparr>\<rparr>
                  else s)
        in if remaining_blocks_count (audio_dma s1) = 0
           then
             let s2 = s1\<lparr>audio_dma := (audio_dma s1)
                          \<lparr>current_source_address := SourceAddress (audio_dma s1)\<rparr>\<rparr>;
                 s3 = s2\<lparr>audio_dma := (audio_dma s2)
                          \<lparr>remaining_blocks_count :=
                             NumBlocks (AudioDMAControl (audio_dma s2))\<rparr>\<rparr>;
                 s4 = (if remaining_blocks_count (audio_dma s3) \<noteq> 0
                       then SendAIBuffer (GuestMemory (SourceAddress (audio_dma s3)))
                              (ucast (NumBlocks (AudioDMAControl (audio_dma s3))) * 8) s3
                       else s3)
             in GenerateDSPInterrupt INT_AID 0 s4
           else s1
      else SendAIBuffer zero_samples 8 s)"

subsection \<open>Memory accesses\<close>

text \<open>
  Modelled from the spec: \<open>Common::swap64\<close>, the accessors \<open>Memory::Read_U8\<close>,
  \<open>Read_U64\<close>, \<open>Write_U64\<close> and \<open>Write_U64_Swap\<close> (64-bit values in the console's
  big-endian order, the swapping write reversing the bytes first) and \<open>HSP::Read\<close> and
  \<open>HSP::Write\<close> are not among the sources. \<open>byte_of v j\<close> is byte \<open>j\<close> of a 64-bit
  value, counted from the least significant one; \<open>cat_bytes\<close> joins bytes, the most
  significant first.
\<close>

definition byte_of :: "u64 \<Rightarrow> nat \<Rightarrow> u8" where
  "byte_of v j = ucast (drop_bit (8 * j) v)"

definition cat_bytes :: "u8 list \<Rightarrow> u64" where
  "cat_bytes bs = foldl (\<lambda>acc b. push_bit 8 acc OR ucast b) 0 bs"

definition swap64 :: "u64 \<Rightarrow> u64" where
  "swap64 v = cat_bytes (map (byte_of v) [0..<8])"

definition Read_U8 :: "u32 \<Rightarrow> System \<Rightarrow> u8" where
  "Read_U8 address s = ram s address"

definition Read_U64 :: "u32 \<Rightarrow> System \<Rightarrow> u64" where
  "Read_U64 address s = cat_bytes (map (\<lambda>j. ram s (address + of_nat j)) [0..<8])"

definition Write_U64 :: "u64 \<Rightarrow> u32 \<Rightarrow> System \<Rightarrow> System" where
  "Write_U64 var address s =
     s\<lparr>ram := fold (\<lambda>j m. m(address + of_nat j := byte_of var (7 - j))) [0..<8] (ram s)\<rparr>"

definition Write_U64_Swap :: "u64 \<Rightarrow> u32 \<Rightarrow> System \<Rightarrow> System" where
  "Write_U64_Swap var address s = Write_U64 (swap64 var) address s"

definition HSP_Read :: "u32 \<Rightarrow> System \<Rightarrow> u64" where
  "HSP_Read address s = hsp s address"

definition HSP_Write :: "u32 \<Rightarrow> u64 \<Rightarrow> System \<Rightarrow> System" where
  "HSP_Write address var s = s\<lparr>hsp := (hsp s)(address := var)\<rparr>"

text \<open>
  \<open>*(u64*)&state.aram.ptr[i]\<close>, read and written: eight bytes of the buffer from index
  \<open>i\<close> on, in the host's little-endian order.
\<close>

definition load_u64 :: "nat \<Rightarrow> System \<Rightarrow> u64" where
  "load_u64 i s = cat_bytes (map (\<lambda>j. ptr (aram s) (i + (7 - j))) [0..<8])"

definition store_u64 :: "nat \<Rightarrow> u64 \<Rightarrow> System \<Rightarrow> System" where
  "store_u64 i v s =
     s\<lparr>aram := (aram s)\<lparr>ptr := fold (\<lambda>j m. m(i + j := byte_of v j)) [0..<8] (ptr (aram s))\<rparr>\<rparr>"

subsection \<open>The ARAM DMA engine\<close>

text \<open>The body of each transfer loop before the three increments, one per loop.\<close>

definition chunk_ARAM_to_MRAM :: "System \<Rightarrow> System" where
  "chunk_ARAM_to_MRAM s =
     (if aram_info s AND 0xf = 3
      then Write_U64_Swap
             (load_u64 (unat (ARAddr (aram_dma s) AND mask_aram (aram s))) s)
             (MMAddr (aram_dma s)) s
      else if aram_info s AND 0xf = 4
      then Write_U64_Swap
             (load_u64 (unat (ARAddr (aram_dma s) AND mask_aram (aram s))) s)
             (MMAddr (aram_dma s)) s
      else Write_U64_Swap
             (load_u64 (unat (ARAddr (aram_dma s) AND mask_aram (aram s))) s)
             (MMAddr (aram_dma s)) s)"

definition chunk_HSP_to_MRAM :: "System \<Rightarrow> System" where
  "chunk_HSP_to_MRAM s =
     Write_U64 (HSP_Read (ARAddr (aram_dma s)) s) (MMAddr (aram_dma s)) s"

definition chunk_MRAM_to_ARAM :: "System \<Rightarrow> System" where
  "chunk_MRAM_to_ARAM s =
     (if aram_info s AND 0xf = 3
      then store_u64 (unat (ARAddr (aram_dma s) AND mask_aram (aram s)))
             (swap64 (Read_U64 (MMAddr (aram_dma s)) s)) s
      else if aram_info s AND 0xf = 4
      then
        let s1 = (if ARAddr (aram_dma s) < 0x400000
                  then store_u64
                         (unat ((ARAddr (aram_dma s) + 0x400000) AND mask_aram (aram s)))
                         (swap64 (Read_U64 (MMAddr (aram_dma s)) s)) s
                  else s)
        in store_u64 (unat (ARAddr (aram_dma s1) AND mask_aram (aram s1)))
             (swap64 (Read_U64 (MMAddr (aram_dma s1)) s1)) s1
      else store_u64 (unat (ARAddr (aram_dma s) AND mask_aram (aram s)))
             (swap64 (Read_U64 (MMAddr (aram_dma s)) s)) s)"

definition chunk_MRAM_to_HSP :: "System \<Rightarrow> System" where
  "chunk_MRAM_to_HSP s =
     HSP_Write (ARAddr (aram_dma s)) (Read_U64 (MMAddr (aram_dma s)) s) s"

text \<open>
  The end of each loop body: \<open>MMAddr += 8; ARAddr += 8; Cnt.count -= 8\<close>, the last one
  in the 31 bits of the bit-field.
\<close>

definition advance :: "System \<Rightarrow> System" where
  "advance s =
     (let s1 = s\<lparr>aram_dma := (aram_dma s)\<lparr>MMAddr := MMAddr (aram_dma s) + 8\<rparr>\<rparr>;
          s2 = s1\<lparr>aram_dma := (aram_dma s1)\<lparr>ARAddr := ARAddr (aram_dma s1) + 8\<rparr>\<rparr>
      in s2\<lparr>aram_dma := (aram_dma s2)
              \<lparr>Cnt := assign_count (count (Cnt (aram_dma s2)) - 8) (Cnt (aram_dma s2))\<rparr>\<rparr>)"

text \<open>
  \<open>while (state.aram_dma.Cnt.count) { chunk; advance }\<close>, the shape of all four loops.
  A count that is no multiple of 8 never reaches zero: the loop then does not return,
  which is the value \<open>None\<close>.
\<close>

partial_function (option) dma_loop :: "(System \<Rightarrow> System) \<Rightarrow> System \<Rightarrow> System option" where
  "dma_loop chunk s =
     (if count (Cnt (aram_dma s)) \<noteq> 0 then dma_loop chunk (advance (chunk s)) else Some s)"

definition Do_ARAM_DMA :: "System \<Rightarrow> System option" where
  "Do_ARAM_DMA s =
     (let s1 = s\<lparr>dsp_control := assign_bit 9 True (dsp_control s)\<rparr>;
          ticksToTransfer = (count (Cnt (aram_dma s1)) div 32) * 246;
          s2 = ScheduleEvent (sint ticksToTransfer) ARAMint 0 s1
      in if dir (Cnt (aram_dma s2))
         then
           let s3 = s2\<lparr>aram_dma := (aram_dma s2)
                        \<lparr>ARAddr := ARAddr (aram_dma s2) AND 0x3ffffff\<rparr>\<rparr>;
               s4 = s3\<lparr>aram_dma := (aram_dma s3)
                        \<lparr>MMAddr := MMAddr (aram_dma s3) AND 0x3ffffff\<rparr>\<rparr>
           in if ARAddr (aram_dma s4) < size_aram (aram s4)
              then dma_loop chunk_ARAM_to_MRAM s4
              else if \<not> wii_mode (aram s4)
              then dma_loop chunk_HSP_to_MRAM s4
              else Some s4
         else
           let s3 = s2\<lparr>aram_dma := (aram_dma s2)
                        \<lparr>ARAddr := ARAddr (aram_dma s2) AND 0x3ffffff\<rparr>\<rparr>;
               s4 = s3\<lparr>aram_dma := (aram_dma s3)
                        \<lparr>MMAddr := MMAddr (aram_dma s3) AND 0x3ffffff\<rparr>\<rparr>
           in if ARAddr (aram_dma s4) < size_aram (aram s4)
              then dma_loop chunk_MRAM_to_ARAM s4
              else if \<not> wii_mode (aram s4)
              then dma_loop chunk_MRAM_to_HSP s4
              else Some s4)"

text \<open>
  The write handler of \<open>AR_DMA_CNT_L\<close>, the trigger of the transfer: the assignment to
  \<open>Cnt.Hex\<close>, then the call.
\<close>

definition Cnt_L_written :: "u16 \<Rightarrow> System \<Rightarrow> System" where
  "Cnt_L_written val s =
     s\<lparr>aram_dma := (aram_dma s)
          \<lparr>Cnt := (Cnt (aram_dma s) AND 0xFFFF0000) OR ucast (val AND 0xffe0)\<rparr>\<rparr>"

definition AR_DMA_CNT_L_write :: "u16 \<Rightarrow> System \<Rightarrow> System option" where
  "AR_DMA_CNT_L_write val s = Do_ARAM_DMA (Cnt_L_written val s)"

text \<open>
  The transfer of the spec, which takes the three branches on the descriptor tag for
  one: every chunk goes the way of the last \<open>else\<close>.
\<close>

definition chunk_ARAM_to_MRAM_single :: "System \<Rightarrow> System" where
  "chunk_ARAM_to_MRAM_single s =
     Write_U64_Swap (load_u64 (unat (ARAddr (aram_dma s) AND mask_aram (aram s))) s)
       (MMAddr (aram_dma s)) s"

definition chunk_MRAM_to_ARAM_single :: "System \<Rightarrow> System" where
  "chunk_MRAM_to_ARAM_single s =
     store_u64 (unat (ARAddr (aram_dma s) AND mask_aram (aram s)))
       (swap64 (Read_U64 (MMAddr (aram_dma s)) s)) s"

definition Do_ARAM_DMA_single :: "System \<Rightarrow> System option" where
  "Do_ARAM_DMA_single s =
     (let s1 = s\<lparr>dsp_control := assign_bit 9 True (dsp_control s)\<rparr>;
          ticksToTransfer = (count (Cnt (aram_dma s1)) div 32) * 246;
          s2 = ScheduleEvent (sint ticksToTransfer) ARAMint 0 s1
      in if dir (Cnt (aram_dma s2))
         then
           let s3 = s2\<lparr>aram_dma := (aram_dma s2)
                        \<lparr>ARAddr := ARAddr (aram_dma s2) AND 0x3ffffff\<rparr>\<rparr>;
               s4 = s3\<lparr>aram_dma := (aram_dma s3)
                        \<lparr>MMAddr := MMAddr (aram_dma s3) AND 0x3ffffff\<rparr>\<rparr>
           in if ARAddr (aram_dma s4) < size_aram (aram s4)
              then dma_loop chunk_ARAM_to_MRAM_single s4
              else if \<not> wii_mode (aram s4)
              then dma_loop chunk_HSP_to_MRAM s4
              else Some s4
         else
           let s3 = s2\<lparr>aram_dma := (aram_dma s2)
                        \<lparr>ARAddr := ARAddr (aram_dma s2) AND 0x3ffffff\<rparr>\<rparr>;
               s4 = s3\<lparr>aram_dma := (aram_dma s3)
                        \<lparr>MMAddr := MMAddr (aram_dma s3) AND 0x3ffffff\<rparr>\<rparr>
           in if ARAddr (aram_dma s4) < size_aram (aram s4)
              then dma_loop chunk_MRAM_to_ARAM_single s4
              else if \<not> wii_mode (aram s4)
              then dma_loop chunk_MRAM_to_HSP s4
              else Some s4)"

subsection \<open>Byte access to the aux RAM\<close>

definition ReadARAM :: "u32 \<Rightarrow> System \<Rightarrow> u8" where
  "ReadARAM address s =
     (if wii_mode (aram s)
      then if address AND 0x10000000 \<noteq> 0
           then ptr (aram s) (unat (address AND mask_aram (aram s)))
           else Read_U8 (address AND ram_mask s) s
      else ptr (aram s) (unat (address AND mask_aram (aram s))))"

definition WriteARAM :: "u8 \<Rightarrow> u32 \<Rightarrow> System \<Rightarrow> System" where
  "WriteARAM val address s =
     s\<lparr>aram := (aram s)
          \<lparr>ptr := (ptr (aram s))(unat (address AND mask_aram (aram s)) := val)\<rparr>\<rparr>"

subsection \<open>Directly mapped registers\<close>

text \<open>
  Modelled from the spec: MMIO.h is not among the sources. A direct write stores the
  written value under the write mask of the register; \<open>HighPart\<close> and \<open>LowPart\<close> are the
  upper and the lower 16 bits of a 32-bit field. The masks are the constants of
  \<open>RegisterMMIO\<close>, the registers the rows of its table \<open>directly_mapped_vars\<close>; the
  mode register \<open>AR_MODE\<close> has no write, and the write of \<open>AUDIO_DMA_START_HI\<close> is the
  handler of its own, which takes its mask from the console revision.
\<close>

definition WMASK_AR_INFO :: u16 where "WMASK_AR_INFO = 0x007f"
definition WMASK_AR_REFRESH :: u16 where "WMASK_AR_REFRESH = 0x07ff"
definition WMASK_AR_HI_RESTRICT :: u16 where "WMASK_AR_HI_RESTRICT = 0x03ff"
definition WMASK_AR_CNT_DIR_BIT :: u16 where "WMASK_AR_CNT_DIR_BIT = 0x8000"
definition WMASK_AUDIO_HI_RESTRICT_GCN :: u16 where "WMASK_AUDIO_HI_RESTRICT_GCN = 0x03ff"
definition WMASK_AUDIO_HI_RESTRICT_WII :: u16 where "WMASK_AUDIO_HI_RESTRICT_WII = 0x1fff"
definition WMASK_LO_ALIGN_32BIT :: u16 where "WMASK_LO_ALIGN_32BIT = 0xffe0"

definition DirectWrite :: "u16 \<Rightarrow> u16 \<Rightarrow> u16" where
  "DirectWrite wmask val = val AND wmask"

definition HighPart_update :: "u16 \<Rightarrow> u32 \<Rightarrow> u32" where
  "HighPart_update h w = (w AND 0x0000FFFF) OR push_bit 16 (ucast h)"

definition LowPart_update :: "u16 \<Rightarrow> u32 \<Rightarrow> u32" where
  "LowPart_update l w = (w AND 0xFFFF0000) OR ucast l"

definition AR_INFO_write :: "u16 \<Rightarrow> System \<Rightarrow> System" where
  "AR_INFO_write val s = s\<lparr>aram_info := DirectWrite WMASK_AR_INFO val\<rparr>"

definition AR_REFRESH_write :: "u16 \<Rightarrow> System \<Rightarrow> System" where
  "AR_REFRESH_write val s = s\<lparr>aram_refresh := DirectWrite WMASK_AR_REFRESH val\<rparr>"

definition AR_DMA_MMADDR_H_write :: "u16 \<Rightarrow> System \<Rightarrow> System" where
  "AR_DMA_MMADDR_H_write val s =
     s\<lparr>aram_dma := (aram_dma s)
          \<lparr>MMAddr := HighPart_update (DirectWrite WMASK_AR_HI_RESTRICT val)
                       (MMAddr (aram_dma s))\<rparr>\<rparr>"

definition AR_DMA_MMADDR_L_write :: "u16 \<Rightarrow> System \<Rightarrow> System" where
  "AR_DMA_MMADDR_L_write val s =
     s\<lparr>aram_dma := (aram_dma s)
          \<lparr>MMAddr := LowPart_update (DirectWrite WMASK_LO_ALIGN_32BIT val)
                       (MMAddr (aram_dma s))\<rparr>\<rparr>"

definition AR_DMA_ARADDR_H_write :: "u16 \<Rightarrow> System \<Rightarrow> System" where
  "AR_DMA_ARADDR_H_write val s =
     s\<lparr>aram_dma := (aram_dma s)
          \<lparr>ARAddr := HighPart_update (DirectWrite WMASK_AR_HI_RESTRICT val)
                       (ARAddr (aram_dma s))\<rparr>\<rparr>"

definition AR_DMA_ARADDR_L_write :: "u16 \<Rightarrow> System \<Rightarrow> System" where
  "AR_DMA_ARADDR_L_write val s =
     s\<lparr>aram_dma := (aram_dma s)
          \<lparr>ARAddr := LowPart_update (DirectWrite WMASK_LO_ALIGN_32BIT val)
                       (ARAddr (aram_dma s))\<rparr>\<rparr>"

definition AR_DMA_CNT_H_write :: "u16 \<Rightarrow> System \<Rightarrow> System" where
  "AR_DMA_CNT_H_write val s =
     s\<lparr>aram_dma := (aram_dma s)
          \<lparr>Cnt := HighPart_update
                    (DirectWrite (WMASK_AR_HI_RESTRICT OR WMASK_AR_CNT_DIR_BIT) val)
                    (Cnt (aram_dma s))\<rparr>\<rparr>"

definition AUDIO_DMA_START_LO_write :: "u16 \<Rightarrow> System \<Rightarrow> System" where
  "AUDIO_DMA_START_LO_write val s =
     s\<lparr>audio_dma := (audio_dma s)
          \<lparr>SourceAddress := LowPart_update (DirectWrite WMASK_LO_ALIGN_32BIT val)
                              (SourceAddress (audio_dma s))\<rparr>\<rparr>"

definition AUDIO_DMA_START_HI_write :: "bool \<Rightarrow> u16 \<Rightarrow> System \<Rightarrow> System" where
  "AUDIO_DMA_START_HI_write bWii_now val s =
     s\<lparr>audio_dma := (audio_dma s)
          \<lparr>SourceAddress :=
             HighPart_update
               (val AND (if bWii_now then WMASK_AUDIO_HI_RESTRICT_WII
                         else WMASK_AUDIO_HI_RESTRICT_GCN))
               (SourceAddress (audio_dma s))\<rparr>\<rparr>"

subsection \<open>The device in operation\<close>

text \<open>
  What reaches the device between two calls of \<open>Reinit\<close>: the register writes, the
  periodic tick of the audio DMA, a scheduled callback that fires, a request of the DSP
  engine, and a byte the DSP engine writes to the aux RAM. \<open>run\<close> takes the device
  through a list of them, in order.
\<close>

datatype Access =
    W_DSP_CONTROL "u16 \<Rightarrow> u16" u16
  | W_AR_INFO u16
  | W_AR_REFRESH u16
  | W_AR_DMA_MMADDR_H u16
  | W_AR_DMA_MMADDR_L u16
  | W_AR_DMA_ARADDR_H u16
  | W_AR_DMA_ARADDR_L u16
  | W_AR_DMA_CNT_H u16
  | W_AR_DMA_CNT_L u16
  | W_AUDIO_DMA_START_HI bool u16
  | W_AUDIO_DMA_START_LO u16
  | W_AUDIO_DMA_CONTROL_LEN u16
  | Audio_tick
  | Fired EventType u64 int
  | From_DSPEmu u64 int
  | W_ARAM_byte u8 u32

fun step :: "Access \<Rightarrow> System \<Rightarrow> System option" where
  "step (W_DSP_CONTROL DSP_WriteControlRegister val) s =
     Some (DSP_CONTROL_write DSP_WriteControlRegister val s)"
| "step (W_AR_INFO val) s = Some (AR_INFO_write val s)"
| "step (W_AR_REFRESH val) s = Some (AR_REFRESH_write val s)"
| "step (W_AR_DMA_MMADDR_H val) s = Some (AR_DMA_MMADDR_H_write val s)"
| "step (W_AR_DMA_MMADDR_L val) s = Some (AR_DMA_MMADDR_L_write val s)"
| "step (W_AR_DMA_ARADDR_H val) s = Some (AR_DMA_ARADDR_H_write val s)"
| "step (W_AR_DMA_ARADDR_L val) s = Some (AR_DMA_ARADDR_L_write val s)"
| "step (W_AR_DMA_CNT_H val) s = Some (AR_DMA_CNT_H_write val s)"
| "step (W_AR_DMA_CNT_L val) s = AR_DMA_CNT_L_write val s"
| "step (W_AUDIO_DMA_START_HI bWii_now val) s = Some (AUDIO_DMA_START_HI_write bWii_now val s)"
| "step (W_AUDIO_DMA_START_LO val) s = Some (AUDIO_DMA_START_LO_write val s)"
| "step (W_AUDIO_DMA_CONTROL_LEN val) s = Some (AUDIO_DMA_CONTROL_LEN_write val s)"
| "step Audio_tick s = Some (UpdateAudioDMA s)"
| "step (Fired event_type userdata cyclesLate) s = Some (fire event_type userdata cyclesLate s)"
| "step (From_DSPEmu type cycles_into_future) s =
     Some (GenerateDSPInterruptFromDSPEmu type cycles_into_future s)"
| "step (W_ARAM_byte val address) s = Some (WriteARAM val address s)"

fun run :: "Access list \<Rightarrow> System \<Rightarrow> System option" where
  "run [] s = Some s"
| "run (a # as) s = (case step a s of None \<Rightarrow> None | Some s' \<Rightarrow> run as s')"


subsection \<open>The transfer as iterations\<close>

text \<open>
  Names for the statements about \<open>Do_ARAM_DMA\<close>: the state in which the function
  reaches its loops (flag set, completion scheduled, both addresses masked), the loop
  body the direction bit and the bounds check select there, and whether one of the four
  loops is entered at all.
\<close>

definition loop_entry :: "System \<Rightarrow> System" where
  "loop_entry s =
     s\<lparr>dsp_control := assign_bit 9 True (dsp_control s),
       scheduled := scheduled s @ [(sint ((count (Cnt (aram_dma s)) div 32) * 246), ARAMint, 0)],
       aram_dma := (aram_dma s)\<lparr>ARAddr := ARAddr (aram_dma s) AND 0x3ffffff,
                                  MMAddr := MMAddr (aram_dma s) AND 0x3ffffff\<rparr>\<rparr>"

definition selected_chunk :: "System \<Rightarrow> System \<Rightarrow> System" where
  "selected_chunk e =
     (if dir (Cnt (aram_dma e))
      then (if ARAddr (aram_dma e) < size_aram (aram e)
            then chunk_ARAM_to_MRAM else chunk_HSP_to_MRAM)
      else (if ARAddr (aram_dma e) < size_aram (aram e)
            then chunk_MRAM_to_ARAM else chunk_MRAM_to_HSP))"

definition transfers :: "System \<Rightarrow> bool" where
  "transfers e = (ARAddr (aram_dma e) < size_aram (aram e) \<or> \<not> wii_mode (aram e))"

subsection \<open>The interrupt line of the spec\<close>

text \<open>
  The spec's condition for the line: at least one of the three sources has its enable
  mask and its pending bit both set.
\<close>

definition interrupt_asserted :: "u16 \<Rightarrow> bool" where
  "interrupt_asserted c =
     ((DSP c \<and> DSP_mask c) \<or> (ARAM c \<and> ARAM_mask c) \<or> (AID c \<and> AID_mask c))"

definition line_ok :: "System \<Rightarrow> bool" where
  "line_ok s = (int_cause_dsp s = interrupt_asserted (dsp_control s))"


subsection \<open>Concrete consoles\<close>

text \<open>
  Hosts and a state before \<open>Init\<close> for the closed theorems: a GameCube, a Wii with the
  retail 64 MiB of extended memory, and a Wii whose extended memory is configured to
  32 MiB.
\<close>

definition GameCube :: Host where
  "GameCube = \<lparr>bWii = False, ExRamSizeReal = 0, ExRamMask = 0, pEXRAM = (\<lambda>_. 0),
                AllocateMemoryPages = (\<lambda>_. 0), IsLLE = (\<lambda>hle. \<not> hle)\<rparr>"

definition Wii :: Host where
  "Wii = \<lparr>bWii = True, ExRamSizeReal = 0x04000000, ExRamMask = 0x03FFFFFF,
           pEXRAM = (\<lambda>_. 0), AllocateMemoryPages = (\<lambda>_. 0), IsLLE = (\<lambda>hle. \<not> hle)\<rparr>"

definition Wii_32MiB :: Host where
  "Wii_32MiB = \<lparr>bWii = True, ExRamSizeReal = 0x02000000, ExRamMask = 0x01FFFFFF,
                 pEXRAM = (\<lambda>_. 0), AllocateMemoryPages = (\<lambda>_. 0), IsLLE = (\<lambda>hle. \<not> hle)\<rparr>"

definition power_on :: System where
  "power_on =
     \<lparr>aram = \<lparr>wii_mode = False, size_aram = 0, mask_aram = 0, ptr = (\<lambda>_. 0)\<rparr>,
      audio_dma = \<lparr>current_source_address = 0, remaining_blocks_count = 0,
                   SourceAddress = 0, AudioDMAControl = 0\<rparr>,
      aram_dma = \<lparr>MMAddr = 0, ARAddr = 0, Cnt = 0\<rparr>,
      dsp_control = 0, aram_info = 0, aram_mode = 0, aram_refresh = 0, dsp_slice = 0,
      is_lle = False,
      ram = (\<lambda>a. ucast a + 1), ram_mask = 0x01FFFFFF, hsp = (\<lambda>_. 0), scheduled = [],
      ai_sink = [], int_cause_dsp = False, panic_alerts = []\<rparr>"

text \<open>
  A GameCube whose descriptor register holds the tag 4, at the call of \<open>Do_ARAM_DMA\<close>
  for 32 bytes from main memory; a Wii with 32 MiB of extended memory and the aux-RAM
  address just beyond it; a GameCube with the main-memory address 0x2000; and the audio
  DMA armed with three blocks at 0x1000.
\<close>

definition tag4_state :: System where
  "tag4_state =
     (Reinit GameCube True power_on)
       \<lparr>aram_info := 4, aram_dma := \<lparr>MMAddr = 0, ARAddr = 0, Cnt = 0x20\<rparr>\<rparr>"

definition wii_beyond_state :: System where
  "wii_beyond_state =
     (Reinit Wii_32MiB True power_on)
       \<lparr>aram_dma := \<lparr>MMAddr = 0, ARAddr = 0x02000000, Cnt = 0\<rparr>\<rparr>"

definition gamecube_state :: System where
  "gamecube_state =
     (Reinit GameCube True power_on)
       \<lparr>aram_dma := \<lparr>MMAddr = 0x2000, ARAddr = 0, Cnt = 0\<rparr>\<rparr>"

definition armed_three :: System where
  "armed_three =
     AUDIO_DMA_CONTROL_LEN_write 0x8003
       (power_on\<lparr>audio_dma := (audio_dma power_on)\<lparr>SourceAddress := 0x1000\<rparr>\<rparr>)"

text \<open>
  A GameCube on which the AID interrupt is enabled and pending, so that the line is
  asserted: after \<open>Reinit\<close>, a write of 0x10 to the control register and the interrupt
  raised.
\<close>

definition asserted_state :: System where
  "asserted_state =
     GenerateDSPInterrupt INT_AID 0
       (DSP_CONTROL_write (\<lambda>val. val) 0x10 (Reinit GameCube True power_on))"

section \<open>Bits of the control register\<close>

lemma int_mask_test:
  "((x::u64) AND (INT_DSP OR INT_ARAM OR INT_AID) \<noteq> 0) = (bit x 7 \<or> bit x 5 \<or> bit x 3)"
proof -
  have e: "INT_DSP OR INT_ARAM OR INT_AID = 2 ^ 7 OR 2 ^ 5 OR (2 ^ 3 :: u64)"
    by (simp add: INT_DSP_def INT_ARAM_def INT_AID_def)
  have "x AND (INT_DSP OR INT_ARAM OR INT_AID) = (x AND 2 ^ 7) OR (x AND 2 ^ 5) OR (x AND 2 ^ 3)"
    unfolding e by (simp only: bit.conj_disj_distrib)
  then show ?thesis
    by (simp only: or_eq_0_iff and_exp_eq_0_iff_not_bit) auto
qed

lemma int_mask_value: "INT_DSP OR INT_ARAM OR INT_AID = (0xA8 :: u64)"
  by (simp add: INT_DSP_def INT_ARAM_def INT_AID_def)

lemma bit_int_mask: "bit (0xA8 :: u64) n = (n = 3 \<or> n = 5 \<or> n = 7)"
proof -
  have "(0xA8 :: u64) = 2 ^ 7 OR 2 ^ 5 OR 2 ^ 3" by simp
  then show ?thesis by (simp only: bit_or_iff bit_exp_iff) auto
qed

lemma bit_assign_bit: "bit (assign_bit n b h) m = (if m = n then b \<and> n < 16 else bit h m)"
  by (auto simp add: assign_bit_def bit_simps dest: bit_imp_le_length)

lemma bit_assign_pad:
  "bit (assign_pad p h) m = (if m < 12 then bit h m else m < 16 \<and> bit p (m - 12))"
proof -
  have e: "(0x0FFF :: u16) = mask 12" by (simp add: mask_eq_exp_minus_1)
  show ?thesis
    unfolding assign_pad_def e
    by (auto simp add: bit_simps dest: bit_imp_le_length)
qed

lemma tmpControl_bit:
  "n \<in> {3, 4, 5, 6, 7, 8} \<Longrightarrow>
   bit ((val AND NOT DSP_CONTROL_MASK) OR (e AND DSP_CONTROL_MASK)) n = bit (val :: u16) n"
  by (auto simp add: DSP_CONTROL_MASK_def bit_simps)

section \<open>The interrupt line\<close>

lemma UpdateInterrupts_line:
  "int_cause_dsp (UpdateInterrupts s) = interrupt_asserted (dsp_control s)"
  unfolding UpdateInterrupts_def SetInterrupt_def Let_def interrupt_asserted_def
    DSP_def DSP_mask_def ARAM_def ARAM_mask_def AID_def AID_mask_def
  apply (simp only: and.assoc[symmetric])
  apply (simp add: int_mask_test bit_simps)
  apply auto
  done

lemma UpdateInterrupts_control: "dsp_control (UpdateInterrupts s) = dsp_control s"
  by (simp add: UpdateInterrupts_def SetInterrupt_def)

lemma UpdateInterrupts_ok:
  "int_cause_dsp (UpdateInterrupts s) = interrupt_asserted (dsp_control (UpdateInterrupts s))"
  by (simp add: UpdateInterrupts_line UpdateInterrupts_control)

lemma GenerateDSPInterrupt_control:
  "dsp_control (GenerateDSPInterrupt t late s) = dsp_control s OR (ucast t AND 0xA8)"
  unfolding GenerateDSPInterrupt_def UpdateInterrupts_control int_mask_value
  apply simp
  apply (rule bit_word_eqI)
  apply (auto simp add: bit_simps bit_int_mask)
  done

lemma GenerateDSPInterrupt_ok: "line_ok (GenerateDSPInterrupt t late s)"
  by (simp add: line_ok_def GenerateDSPInterrupt_def UpdateInterrupts_ok)






section \<open>Writes of the control register\<close>

text \<open>
  Claim C2. For every written value and every state, a pending bit of the stored
  control register is set after the write exactly if it was set before and the written
  bit is 0: a written 1 clears it, a written 0 keeps it, and nothing sets it. Each of the
  three enable masks becomes the written bit, whatever is pending.
\<close>

theorem DSP_CONTROL_write_pending_and_masks:
  "let c = dsp_control s; c' = dsp_control (DSP_CONTROL_write DSP_WriteControlRegister val s) in
     AID c' = (AID c \<and> \<not> bit val 3) \<and>
     ARAM c' = (ARAM c \<and> \<not> bit val 5) \<and>
     DSP c' = (DSP c \<and> \<not> bit val 7) \<and>
     AID_mask c' = bit val 4 \<and>
     ARAM_mask c' = bit val 6 \<and>
     DSP_mask c' = bit val 8"
  unfolding Let_def DSP_CONTROL_write_def UpdateInterrupts_control
    AID_def ARAM_def DSP_def AID_mask_def ARAM_mask_def DSP_mask_def
  by (simp add: bit_assign_pad bit_assign_bit tmpControl_bit)

section \<open>Interrupts raised from inside\<close>

text \<open>
  Claim C10. \<open>GenerateDSPInterrupt\<close> masks its 64-bit argument to the three pending
  bits before it is OR-ed into the control register: a pending bit is set afterwards
  exactly if it was set or the argument has it, and the enable masks, the reset, assert,
  halt, init-code and init fields, the DMA-in-progress flag and the padding keep their
  values. The fired event "DSPint" is this call, and a request of the DSP engine only
  schedules it.
\<close>

theorem GenerateDSPInterrupt_sets_only_pending:
  fixes DSPIntType :: u64
  shows "let c = dsp_control s; c' = dsp_control (GenerateDSPInterrupt DSPIntType late s) in
     c' = c OR ucast (DSPIntType AND (INT_DSP OR INT_ARAM OR INT_AID)) \<and>
     c' AND NOT 0xA8 = c AND NOT 0xA8 \<and>
     DSP c' = (DSP c \<or> bit DSPIntType 7) \<and>
     ARAM c' = (ARAM c \<or> bit DSPIntType 5) \<and>
     AID c' = (AID c \<or> bit DSPIntType 3) \<and>
     DSP_mask c' = DSP_mask c \<and> ARAM_mask c' = ARAM_mask c \<and> AID_mask c' = AID_mask c \<and>
     DSPReset c' = DSPReset c \<and> DSPAssertInt c' = DSPAssertInt c \<and> DSPHalt c' = DSPHalt c \<and>
     DSPInitCode c' = DSPInitCode c \<and> DSPInit c' = DSPInit c \<and>
     DMAState c' = DMAState c \<and> pad c' = pad c \<and>
     dsp_control (fire DSPint DSPIntType late s) = c' \<and>
     dsp_control (GenerateDSPInterruptFromDSPEmu DSPIntType n s) = c"
proof -
  have c': "dsp_control (GenerateDSPInterrupt DSPIntType late s)
              = dsp_control s OR (ucast DSPIntType AND 0xA8)"
    by (rule GenerateDSPInterrupt_control)
  have m: "(ucast (DSPIntType AND (INT_DSP OR INT_ARAM OR INT_AID)) :: u16)
              = ucast DSPIntType AND 0xA8"
    unfolding int_mask_value by (rule bit_word_eqI) (auto simp add: bit_simps)
  have b: "bit (dsp_control s OR (ucast DSPIntType AND (0xA8 :: u16))) k
             = (bit (dsp_control s) k \<or> (k \<in> {3, 5, 7} \<and> bit DSPIntType k))" for k
  proof -
    have "(0xA8 :: u16) = 2 ^ 7 OR 2 ^ 5 OR 2 ^ 3" by simp
    then have "bit (0xA8 :: u16) k = (k \<in> {3, 5, 7})"
      by (simp only: bit_or_iff bit_exp_iff) auto
    then show ?thesis by (auto simp add: bit_simps)
  qed
  have fr: "(dsp_control s OR (ucast DSPIntType AND 0xA8)) AND NOT 0xA8
              = dsp_control s AND NOT 0xA8"
    by (rule bit_word_eqI) (auto simp add: bit_simps)
  have pd: "pad (dsp_control s OR (ucast DSPIntType AND 0xA8)) = pad (dsp_control s)"
    unfolding pad_def by (rule bit_word_eqI) (auto simp add: bit_simps b)
  show ?thesis
    unfolding Let_def c' m fire.simps
    using fr by (simp add: b pd DSP_def ARAM_def AID_def DSP_mask_def ARAM_mask_def AID_mask_def
        DSPReset_def DSPAssertInt_def DSPHalt_def DSPInitCode_def DSPInit_def DMAState_def
        GenerateDSPInterruptFromDSPEmu_def ScheduleEvent_def GenerateDSPInterrupt_control)
qed

section \<open>Reinit\<close>

text \<open>
  Claim C9, as amended. After \<open>Reinit\<close> (and \<open>Init\<close>, which is the same on the
  registers) the control register is exactly its halt bit, both DMA state blocks and the
  aux-RAM descriptor are zero, the mode-status register reads 1 and the refresh
  register reads 156.
\<close>

theorem Reinit_registers:
  "let s' = Reinit host hle s in
     dsp_control s' = 4 \<and> DSPHalt (dsp_control s') \<and>
     audio_dma s' = \<lparr>current_source_address = 0, remaining_blocks_count = 0,
                      SourceAddress = 0, AudioDMAControl = 0\<rparr> \<and>
     aram_dma s' = \<lparr>MMAddr = 0, ARAddr = 0, Cnt = 0\<rparr> \<and>
     aram_info s' = 0 \<and> aram_mode s' = 1 \<and> aram_refresh s' = 156 \<and>
     Init host hle s = s'"
  by (simp add: Reinit_def Init_def Let_def assign_bit_def DSPHalt_def)

text \<open>
  The claim as stated has the mode-status and the refresh register read as zero after
  \<open>Reinit\<close>; on a GameCube they do not.
\<close>

theorem Reinit_mode_refresh_nonzero:
  "aram_mode (Reinit GameCube True power_on) \<noteq> 0 \<and>
   aram_refresh (Reinit GameCube True power_on) \<noteq> 0"
  by (simp add: Reinit_def Let_def)

section \<open>The Audio DMA engine\<close>

lemma NumBlocks_samples: "unat (ucast (NumBlocks h) * 8 :: u32) = 8 * unat (NumBlocks h)"
proof -
  have "NumBlocks h \<le> 0x7FFF" unfolding NumBlocks_def by (rule word_and_le1)
  then have b: "unat (NumBlocks h) \<le> 0x7FFF" by (simp add: word_le_nat_alt)
  have "uint (ucast (NumBlocks h) :: u32) = uint (NumBlocks h)"
    by (rule uint_up_ucast) (simp add: is_up)
  then have "unat (ucast (NumBlocks h) :: u32) = unat (NumBlocks h)"
    by (simp only: unat_eq_nat_uint)
  with b show ?thesis by (simp add: unat_word_ariths)
qed

lemma read_max:
  "uint (AUDIO_DMA_BLOCKS_LEFT_read s) = max (uint (remaining_blocks_count (audio_dma s)) - 1) 0"
proof (cases "remaining_blocks_count (audio_dma s) = 0")
  case True
  then show ?thesis by (simp add: AUDIO_DMA_BLOCKS_LEFT_read_def)
next
  case False
  then have p: "0 < remaining_blocks_count (audio_dma s)" by (simp add: word_greater_zero_iff)
  then have "1 \<le> remaining_blocks_count (audio_dma s)" by (simp add: word_le_nat_alt word_less_nat_alt)
  then have "uint (remaining_blocks_count (audio_dma s) - 1) = uint (remaining_blocks_count (audio_dma s)) - 1"
    by (simp add: uint_sub_if_size word_le_def)
  with p show ?thesis by (simp add: AUDIO_DMA_BLOCKS_LEFT_read_def word_less_def)
qed


lemmas audio_defs = AUDIO_DMA_CONTROL_LEN_write_def UpdateAudioDMA_def
  AUDIO_DMA_BLOCKS_LEFT_read_def Let_def SendAIBuffer_def ScheduleEvent_def
  Enable_def NumBlocks_def GenerateDSPInterrupt_control

lemma GenerateDSPInterrupt_audio_dma:
  "audio_dma (GenerateDSPInterrupt t late s) = audio_dma s"
  by (simp add: GenerateDSPInterrupt_def UpdateInterrupts_def SetInterrupt_def)

text \<open>
  Claim C5, as amended. A write of the audio DMA control register stores the written
  value. Exactly when the enable bit was clear before and is set in the written value,
  the engine copies the source address into the running cursor and the written number
  of blocks into the remaining-block counter, delivers to the audio sink all the blocks
  of the buffer at once (the samples at the source address, 8 sample frames, that is 32
  bytes, for each of the \<open>NumBlocks\<close> blocks), and schedules the AID interrupt 200
  cycles in the future. Any other write reloads nothing, delivers nothing and schedules
  nothing.
\<close>

theorem AUDIO_DMA_CONTROL_LEN_write_arms:
  "let a = audio_dma s; s' = AUDIO_DMA_CONTROL_LEN_write val s; a' = audio_dma s' in
     AudioDMAControl a' = val \<and> SourceAddress a' = SourceAddress a \<and>
     (if \<not> Enable (AudioDMAControl a) \<and> Enable val
      then current_source_address a' = SourceAddress a \<and>
           remaining_blocks_count a' = NumBlocks val \<and>
           ai_sink s' = ai_sink s @ [(GuestMemory (SourceAddress a), ucast (NumBlocks val) * 8)] \<and>
           unat (ucast (NumBlocks val) * 8 :: u32) = 8 * unat (NumBlocks val) \<and>
           scheduled s' = scheduled s @ [(200, DSPint, INT_AID)]
      else current_source_address a' = current_source_address a \<and>
           remaining_blocks_count a' = remaining_blocks_count a \<and>
           ai_sink s' = ai_sink s \<and> scheduled s' = scheduled s)"
  by (simp add: AUDIO_DMA_CONTROL_LEN_write_def Let_def SendAIBuffer_def ScheduleEvent_def
      NumBlocks_samples)

text \<open>
  The claim as stated has one 32-byte block (8 sample frames) delivered on arming; armed
  with three blocks, the engine delivers 24 sample frames.
\<close>

theorem AUDIO_DMA_CONTROL_LEN_write_three_blocks:
  "ai_sink (AUDIO_DMA_CONTROL_LEN_write 0x8003 power_on) = [(GuestMemory 0, 24)] \<and>
   ai_sink (AUDIO_DMA_CONTROL_LEN_write 0x8003 power_on) \<noteq> [(GuestMemory 0, 8)]"
  by (simp add: AUDIO_DMA_CONTROL_LEN_write_def Let_def SendAIBuffer_def ScheduleEvent_def
      power_on_def Enable_def NumBlocks_def)

text \<open>
  Claim C6, as amended. In every state a read of the blocks-remaining register returns
  \<open>max (remaining_blocks_count - 1) 0\<close>. Armed with source address 0x1000 and three
  blocks, the read right after arming returns 2, the reads after the first and the
  second tick return 1 and 0 with no interrupt raised so far, and the third tick reloads
  counter and cursor, raises the AID interrupt and makes the read return 2 again.
\<close>

theorem blocks_left_read_and_scenario:
  "uint (AUDIO_DMA_BLOCKS_LEFT_read s) = max (uint (remaining_blocks_count (audio_dma s)) - 1) 0 \<and>
   (\<not> Enable (AudioDMAControl (audio_dma s)) \<and> SourceAddress (audio_dma s) = 0x1000 \<longrightarrow>
    (let s0 = AUDIO_DMA_CONTROL_LEN_write 0x8003 s;
         s1 = UpdateAudioDMA s0; s2 = UpdateAudioDMA s1; s3 = UpdateAudioDMA s2 in
       remaining_blocks_count (audio_dma s0) = 3 \<and>
       AUDIO_DMA_BLOCKS_LEFT_read s0 = 2 \<and>
       AUDIO_DMA_BLOCKS_LEFT_read s1 = 1 \<and>
       AUDIO_DMA_BLOCKS_LEFT_read s2 = 0 \<and>
       dsp_control s2 = dsp_control s \<and>
       AUDIO_DMA_BLOCKS_LEFT_read s3 = 2 \<and>
       AID (dsp_control s3) \<and>
       current_source_address (audio_dma s3) = 0x1000))"
proof -
  have sc: "\<not> Enable (AudioDMAControl (audio_dma s)) \<and> SourceAddress (audio_dma s) = 0x1000 \<longrightarrow>
    (let s0 = AUDIO_DMA_CONTROL_LEN_write 0x8003 s;
         s1 = UpdateAudioDMA s0; s2 = UpdateAudioDMA s1; s3 = UpdateAudioDMA s2 in
       remaining_blocks_count (audio_dma s0) = 3 \<and>
       AUDIO_DMA_BLOCKS_LEFT_read s0 = 2 \<and>
       AUDIO_DMA_BLOCKS_LEFT_read s1 = 1 \<and>
       AUDIO_DMA_BLOCKS_LEFT_read s2 = 0 \<and>
       dsp_control s2 = dsp_control s \<and>
       AUDIO_DMA_BLOCKS_LEFT_read s3 = 2 \<and>
       AID (dsp_control s3) \<and>
       current_source_address (audio_dma s3) = 0x1000)"
    by (simp add: audio_defs GenerateDSPInterrupt_audio_dma AID_def INT_AID_def bit_simps)
  show ?thesis using read_max sc by blast
qed

theorem blocks_left_read_and_scenario_witness:
  "(let s0 = AUDIO_DMA_CONTROL_LEN_write 0x8003
               (power_on\<lparr>audio_dma := (audio_dma power_on)\<lparr>SourceAddress := 0x1000\<rparr>\<rparr>);
        s1 = UpdateAudioDMA s0; s2 = UpdateAudioDMA s1; s3 = UpdateAudioDMA s2 in
       remaining_blocks_count (audio_dma s0) = 3 \<and>
       AUDIO_DMA_BLOCKS_LEFT_read s0 = 2 \<and>
       AUDIO_DMA_BLOCKS_LEFT_read s1 = 1 \<and>
       AUDIO_DMA_BLOCKS_LEFT_read s2 = 0 \<and>
       AUDIO_DMA_BLOCKS_LEFT_read s3 = 2 \<and>
       AID (dsp_control s3))"
  using blocks_left_read_and_scenario
    [of "power_on\<lparr>audio_dma := (audio_dma power_on)\<lparr>SourceAddress := 0x1000\<rparr>\<rparr>"]
  by (simp add: power_on_def Enable_def Let_def)

text \<open>
  The claim as stated has the reads after the first, second and third tick return 2, 1
  and 0; they return 1, 0 and 2.
\<close>

theorem blocks_left_reads_after_ticks:
  "AUDIO_DMA_BLOCKS_LEFT_read (UpdateAudioDMA armed_three) = 1 \<and>
   AUDIO_DMA_BLOCKS_LEFT_read (UpdateAudioDMA armed_three) \<noteq> 2 \<and>
   AUDIO_DMA_BLOCKS_LEFT_read (UpdateAudioDMA (UpdateAudioDMA armed_three)) = 0 \<and>
   AUDIO_DMA_BLOCKS_LEFT_read (UpdateAudioDMA (UpdateAudioDMA (UpdateAudioDMA armed_three))) = 2"
  by (simp add: armed_three_def audio_defs GenerateDSPInterrupt_audio_dma power_on_def)

section \<open>Byte access to the aux RAM\<close>

text \<open>
  Claim C8. On a Wii, \<open>ReadARAM\<close> of an address whose bit 28 is clear reads main
  memory, but \<open>WriteARAM\<close> to the same address stores into the aliased buffer and leaves
  main memory as it was: the byte written at 0x100 is not the byte read back from 0x100.
\<close>

theorem WriteARAM_wii_low_address:
  "(let s = Reinit Wii True power_on; s' = WriteARAM 0xAB 0x100 s in
      wii_mode (aram s) \<and> (0x100 :: u32) AND 0x10000000 = 0 \<and>
      ram s' = ram s \<and>
      ptr (aram s) 0x100 = 0 \<and> ptr (aram s') 0x100 = 0xAB \<and>
      ReadARAM 0x100 s' = 1 \<and> ReadARAM 0x100 s = 1)"
  by (simp add: Reinit_def Wii_def power_on_def WriteARAM_def ReadARAM_def Read_U8_def Let_def)

section \<open>The ARAM DMA engine\<close>

subsection \<open>The loop\<close>

lemma count_bound: "unat (count h) < 2 ^ 31"
proof -
  have "count h \<le> 0x7FFFFFFF" unfolding count_def by (rule word_and_le1)
  then show ?thesis by (simp add: word_le_nat_alt)
qed

lemma count_assign_count: "v < 0x80000000 \<Longrightarrow> count (assign_count v h) = v"
proof -
  assume v: "v < 0x80000000"
  have m: "(0x7FFFFFFF :: u32) = mask 31" by (simp add: mask_eq_exp_minus_1)
  have n: "(0x80000000 :: u32) = 2 ^ 31" by simp
  from v have "v AND mask 31 = v" unfolding n by (rule less_mask_eq)
  moreover have "(h AND 2 ^ 31) AND mask 31 = (0 :: u32)"
    by (rule bit_word_eqI) (simp only: bit_and_iff bit_mask_iff bit_exp_iff, auto)
  ultimately show ?thesis
    unfolding count_def assign_count_def m n
    by (simp add: bit.conj_disj_distrib2 and.assoc)
qed

lemma dir_assign_count: "dir (assign_count v h) = dir h"
proof -
  have m: "(0x7FFFFFFF :: u32) = mask 31" by (simp add: mask_eq_exp_minus_1)
  have n: "(0x80000000 :: u32) = 2 ^ 31" by simp
  show ?thesis unfolding dir_def assign_count_def m n
    by (auto simp add: bit_simps)
qed

lemma count_step:
  assumes "unat (count h) = 8 * Suc k"
  shows "unat (count (assign_count (count h - 8) h)) = 8 * k"
proof -
  from assms have ge: "8 \<le> unat (count h)" by simp
  then have le: "(8 :: u32) \<le> count h" by (simp add: word_le_nat_alt)
  then have u: "unat (count h - 8) = unat (count h) - 8" by (simp add: unat_sub)
  with count_bound [of h] have "unat (count h - 8) < 2 ^ 31" by simp
  then have "count h - 8 < 0x80000000" by (simp add: word_less_nat_alt)
  then have "count (assign_count (count h - 8) h) = count h - 8" by (rule count_assign_count)
  with u assms show ?thesis by simp
qed

lemma advance_aram_dma:
  "aram_dma (advance s) =
     \<lparr>MMAddr = MMAddr (aram_dma s) + 8, ARAddr = ARAddr (aram_dma s) + 8,
      Cnt = assign_count (count (Cnt (aram_dma s)) - 8) (Cnt (aram_dma s))\<rparr>"
  by (simp add: advance_def Let_def)

lemma advance_frame:
  "dsp_control (advance s) = dsp_control s" "scheduled (advance s) = scheduled s"
  "int_cause_dsp (advance s) = int_cause_dsp s" "aram_info (advance s) = aram_info s"
  "aram (advance s) = aram s" "ram (advance s) = ram s" "hsp (advance s) = hsp s"
  by (simp_all add: advance_def Let_def)

lemma dma_loop_iterates:
  assumes fr: "\<And>s. aram_dma (chunk s) = aram_dma s"
  shows "unat (count (Cnt (aram_dma s))) = 8 * k \<Longrightarrow>
         dma_loop chunk s = Some (((\<lambda>x. advance (chunk x)) ^^ k) s)"
proof (induction k arbitrary: s)
  case 0
  then have "count (Cnt (aram_dma s)) = 0" by (simp add: unat_eq_0)
  then show ?case by (subst dma_loop.simps) simp
next
  case (Suc k)
  then have nz: "count (Cnt (aram_dma s)) \<noteq> 0" by auto
  have "unat (count (Cnt (aram_dma (advance (chunk s))))) = 8 * k"
    using count_step [OF Suc.prems] by (simp add: advance_aram_dma fr)
  then have "dma_loop chunk (advance (chunk s)) = Some (((\<lambda>x. advance (chunk x)) ^^ k) (advance (chunk s)))"
    by (rule Suc.IH)
  with nz show ?case
    using funpow_swap1 [of "\<lambda>x. advance (chunk x)" k s]
    by (subst dma_loop.simps) simp
qed

lemma iterates_registers:
  fixes chunk :: "System \<Rightarrow> System"
  assumes fr: "\<And>s. aram_dma (chunk s) = aram_dma s"
  shows "unat (count (Cnt (aram_dma s))) = 8 * k \<Longrightarrow> j \<le> k \<Longrightarrow>
         unat (count (Cnt (aram_dma (((\<lambda>x. advance (chunk x)) ^^ j) s)))) = 8 * (k - j) \<and>
         dir (Cnt (aram_dma (((\<lambda>x. advance (chunk x)) ^^ j) s))) = dir (Cnt (aram_dma s)) \<and>
         MMAddr (aram_dma (((\<lambda>x. advance (chunk x)) ^^ j) s)) = MMAddr (aram_dma s) + 8 * of_nat j \<and>
         ARAddr (aram_dma (((\<lambda>x. advance (chunk x)) ^^ j) s)) = ARAddr (aram_dma s) + 8 * of_nat j"
proof (induction j)
  case 0
  then show ?case by simp
next
  case (Suc j)
  let ?t = "((\<lambda>x. advance (chunk x)) ^^ j) s"
  from Suc have ih: "unat (count (Cnt (aram_dma ?t))) = 8 * (k - j)"
    "dir (Cnt (aram_dma ?t)) = dir (Cnt (aram_dma s))"
    "MMAddr (aram_dma ?t) = MMAddr (aram_dma s) + 8 * of_nat j"
    "ARAddr (aram_dma ?t) = ARAddr (aram_dma s) + 8 * of_nat j"
    by simp_all
  from Suc.prems have "k - j = Suc (k - Suc j)" by simp
  with ih(1) have "unat (count (Cnt (aram_dma ?t))) = 8 * Suc (k - Suc j)" by simp
  then have c: "unat (count (assign_count (count (Cnt (aram_dma ?t)) - 8) (Cnt (aram_dma ?t))))
                  = 8 * (k - Suc j)"
    by (rule count_step)
  show ?case
    using c ih by (simp add: advance_aram_dma fr dir_assign_count algebra_simps)
qed

lemma iterates_frame:
  fixes chunk :: "System \<Rightarrow> System"
  assumes "\<And>s. dsp_control (chunk s) = dsp_control s"
    and "\<And>s. scheduled (chunk s) = scheduled s"
    and "\<And>s. int_cause_dsp (chunk s) = int_cause_dsp s"
  shows "dsp_control (((\<lambda>x. advance (chunk x)) ^^ j) s) = dsp_control s \<and>
         scheduled (((\<lambda>x. advance (chunk x)) ^^ j) s) = scheduled s \<and>
         int_cause_dsp (((\<lambda>x. advance (chunk x)) ^^ j) s) = int_cause_dsp s"
  by (induction j) (simp_all add: advance_frame assms)

lemma dma_loop_cong_Some:
  assumes eq: "\<And>s. P s \<Longrightarrow> f s = g s" and inv: "\<And>s. P s \<Longrightarrow> P (advance (f s))"
  shows "dma_loop f s = Some y \<Longrightarrow> P s \<Longrightarrow> dma_loop g s = Some y"
proof -
  assume r: "dma_loop f s = Some y" and p: "P s"
  have "f = f \<longrightarrow> P s \<longrightarrow> dma_loop g s = Some y"
  proof (rule dma_loop.raw_induct [where P = "\<lambda>c s y. c = f \<longrightarrow> P s \<longrightarrow> dma_loop g s = Some y", OF _ r])
    fix D :: "(System \<Rightarrow> System) \<Rightarrow> System \<Rightarrow> System option" and chunk s y
    assume ih: "\<And>c s y. D c s = Some y \<Longrightarrow> c = f \<longrightarrow> P s \<longrightarrow> dma_loop g s = Some y"
      and st: "(if count (Cnt (aram_dma s)) \<noteq> 0 then D chunk (advance (chunk s)) else Some s) = Some y"
    show "chunk = f \<longrightarrow> P s \<longrightarrow> dma_loop g s = Some y"
    proof (intro impI)
      assume c: "chunk = f" and ps: "P s"
      show "dma_loop g s = Some y"
      proof (cases "count (Cnt (aram_dma s)) = 0")
        case True
        with st have "y = s" by simp
        with True show ?thesis by (subst dma_loop.simps) simp
      next
        case False
        with st c have "D f (advance (f s)) = Some y" by simp
        with ih inv [OF ps] have "dma_loop g (advance (f s)) = Some y" by blast
        with False eq [OF ps] show ?thesis by (subst dma_loop.simps) simp
      qed
    qed
  qed
  with p show ?thesis by simp
qed

lemma dma_loop_cong:
  assumes eq: "\<And>s. P s \<Longrightarrow> f s = g s" and inv: "\<And>s. P s \<Longrightarrow> P (advance (f s))"
    and p: "P s"
  shows "dma_loop f s = dma_loop g s"
proof -
  have eq': "\<And>s. P s \<Longrightarrow> g s = f s" using eq by simp
  have inv': "\<And>s. P s \<Longrightarrow> P (advance (g s))" using eq inv by metis
  show ?thesis
  proof (cases "dma_loop f s")
    case None
    show ?thesis
    proof (cases "dma_loop g s")
      case None
      with \<open>dma_loop f s = None\<close> show ?thesis by simp
    next
      case (Some y)
      from dma_loop_cong_Some [of P g f, OF eq' inv' Some p] None show ?thesis by simp
    qed
  next
    case (Some y)
    from dma_loop_cong_Some [of P f g, OF eq inv Some p] Some show ?thesis by simp
  qed
qed

lemmas chunk_defs = chunk_ARAM_to_MRAM_def chunk_HSP_to_MRAM_def chunk_MRAM_to_ARAM_def
  chunk_MRAM_to_HSP_def chunk_ARAM_to_MRAM_single_def chunk_MRAM_to_ARAM_single_def
  Write_U64_Swap_def Write_U64_def store_u64_def HSP_Write_def Let_def

lemma iterates_obs:
  fixes chunk :: "System \<Rightarrow> System"
  assumes "\<And>s. obs (advance (chunk s)) = obs s"
  shows "obs (((\<lambda>x. advance (chunk x)) ^^ j) s) = obs s"
  by (induction j) (simp_all add: assms)

lemma selected_chunk_aram_dma: "aram_dma (selected_chunk e s) = aram_dma s"
  by (simp add: selected_chunk_def chunk_defs)


lemma trigger_count_multiple:
  fixes h :: u32 and val :: u16
  shows "8 dvd unat (count ((h AND 0xFFFF0000) OR ucast (val AND 0xffe0)))"
proof -
  let ?c = "count ((h AND 0xFFFF0000) OR ucast (val AND 0xffe0))"
  have a: "(0xFFFF0000 :: u32) = NOT (mask 16)" by (simp add: mask_eq_exp_minus_1)
  have b: "(0xffe0 :: u16) = NOT (mask 5)" by (simp add: mask_eq_exp_minus_1)
  have c: "(0x7FFFFFFF :: u32) = mask 31" by (simp add: mask_eq_exp_minus_1)
  have "take_bit 3 ?c = 0"
    unfolding count_def a b c
    by (rule bit_word_eqI) (auto simp add: bit_simps)
  then have "?c mod 8 = 0" by (simp add: take_bit_eq_mod)
  then have "unat (?c mod 8) = 0" by simp
  then have "unat ?c mod 8 = 0" by (simp add: unat_mod)
  then show ?thesis by presburger
qed

lemma Do_ARAM_DMA_entry:
  "Do_ARAM_DMA s =
     (if transfers (loop_entry s)
      then dma_loop (selected_chunk (loop_entry s)) (loop_entry s)
      else Some (loop_entry s))"
  by (simp add: Do_ARAM_DMA_def loop_entry_def selected_chunk_def
      transfers_def Let_def ScheduleEvent_def)

lemma Do_ARAM_DMA_result:
  assumes "8 dvd unat (count (Cnt (aram_dma s)))"
  shows "Do_ARAM_DMA s =
     Some (if transfers (loop_entry s)
           then ((\<lambda>x. advance (selected_chunk (loop_entry s) x))
                   ^^ (unat (count (Cnt (aram_dma s))) div 8)) (loop_entry s)
           else loop_entry s)"
proof -
  let ?e = "loop_entry s"
  have c: "Cnt (aram_dma ?e) = Cnt (aram_dma s)" by (simp add: loop_entry_def)
  from assms have k: "unat (count (Cnt (aram_dma ?e))) = 8 * (unat (count (Cnt (aram_dma s))) div 8)"
    unfolding c by simp
  have "dma_loop (selected_chunk ?e) ?e =
          Some (((\<lambda>x. advance (selected_chunk ?e x)) ^^ (unat (count (Cnt (aram_dma s))) div 8)) ?e)"
    by (rule dma_loop_iterates [OF selected_chunk_aram_dma k])
  then show ?thesis by (simp add: Do_ARAM_DMA_entry)
qed

lemma Cnt_L_written_multiple: "8 dvd unat (count (Cnt (aram_dma (Cnt_L_written val s))))"
  using trigger_count_multiple [of "Cnt (aram_dma s)" val] by (simp add: Cnt_L_written_def)

lemma loop_entry_written:
  "MMAddr (aram_dma (loop_entry (Cnt_L_written val s))) = MMAddr (aram_dma s) AND 0x3ffffff"
  "ARAddr (aram_dma (loop_entry (Cnt_L_written val s))) = ARAddr (aram_dma s) AND 0x3ffffff"
  "Cnt (aram_dma (loop_entry (Cnt_L_written val s))) =
     (Cnt (aram_dma s) AND 0xFFFF0000) OR ucast (val AND 0xffe0)"
  "ram (loop_entry (Cnt_L_written val s)) = ram s"
  "aram (loop_entry (Cnt_L_written val s)) = aram s"
  "hsp (loop_entry (Cnt_L_written val s)) = hsp s"
  "dsp_control (loop_entry (Cnt_L_written val s)) = assign_bit 9 True (dsp_control s)"
  "int_cause_dsp (loop_entry (Cnt_L_written val s)) = int_cause_dsp s"
  "scheduled (loop_entry (Cnt_L_written val s)) =
     scheduled s @ [(sint ((count (Cnt (aram_dma (Cnt_L_written val s))) div 32) * 246), ARAMint, 0)]"
  by (simp_all add: loop_entry_def Cnt_L_written_def)

lemma masked_address_bound: "unat ((a :: u32) AND 0x3ffffff) < 2 ^ 26"
proof -
  have "a AND 0x3ffffff \<le> 0x3ffffff" by (rule word_and_le1)
  then show ?thesis by (simp add: word_le_nat_alt)
qed

lemma address_after_chunks:
  fixes a :: u32
  assumes "unat a < 2 ^ 26" and "8 * k < 2 ^ 31"
  shows "unat (a + 8 * of_nat k) = unat a + 8 * k"
proof -
  have u: "unat ((8 :: u32) * of_nat k) = 8 * k"
    using unat_of_nat [of "8 * k", where 'a = 32] assms by simp
  with assms have "unat a + unat ((8 :: u32) * of_nat k) < 2 ^ LENGTH(32)" by simp
  then have "unat (a + 8 * of_nat k) = unat a + unat ((8 :: u32) * of_nat k)"
    by (simp only: unat_add_lem)
  with u show ?thesis by simp
qed

lemmas fixture_defs = gamecube_state_def wii_beyond_state_def tag4_state_def Reinit_def
  GameCube_def Wii_32MiB_def power_on_def ARAM_SIZE_def ARAM_MASK_def Let_def


lemma CompleteARAM_effect:
  "\<not> DMAState (dsp_control (CompleteARAM u late s)) \<and> ARAM (dsp_control (CompleteARAM u late s)) \<and>
   ram (CompleteARAM u late s) = ram s \<and> aram (CompleteARAM u late s) = aram s \<and>
   hsp (CompleteARAM u late s) = hsp s \<and> aram_dma (CompleteARAM u late s) = aram_dma s \<and>
   scheduled (CompleteARAM u late s) = scheduled s"
proof -
  have c: "dsp_control (CompleteARAM u late s) = assign_bit 9 False (dsp_control s) OR 0x20"
    unfolding CompleteARAM_def GenerateDSPInterrupt_control by (simp add: INT_ARAM_def)
  have "\<not> DMAState (dsp_control (CompleteARAM u late s))"
    unfolding c DMAState_def by (simp add: bit_simps bit_assign_bit)
  moreover have "ARAM (dsp_control (CompleteARAM u late s))"
    unfolding c ARAM_def by (simp add: bit_simps)
  ultimately show ?thesis
    by (simp add: CompleteARAM_def GenerateDSPInterrupt_def UpdateInterrupts_def SetInterrupt_def)
qed

subsection \<open>The trigger\<close>

text \<open>
  Claim C4, as amended. A write of the count-low register leaves a byte count
  \<open>8 * k\<close>. Both addresses are masked to 64 MiB before any transfer: in the state at the
  loop heads they are masked and main memory, the aux-RAM buffer and the HSP store are
  still those of before. When the masked aux-RAM address lies inside the buffer, or the
  device is in standalone mode, the trigger returns after exactly \<open>k\<close> runs of the
  selected loop body (the count is nonzero before each of them), with the count at 0 and
  both addresses at the masked start plus \<open>8 * k\<close> (no wrap-around; the sum is not
  masked again). Otherwise (aliased mode, address beyond the buffer) no loop is entered:
  the count and the masked addresses stay.
\<close>

theorem ARAM_DMA_trigger_chunks:
  "let e = loop_entry (Cnt_L_written val s);
       k = unat (count (Cnt (aram_dma e))) div 8;
       s' = ((\<lambda>x. advance (selected_chunk e x)) ^^ k) e in
     MMAddr (aram_dma e) = MMAddr (aram_dma s) AND 0x3ffffff \<and>
     ARAddr (aram_dma e) = ARAddr (aram_dma s) AND 0x3ffffff \<and>
     ram e = ram s \<and> aram e = aram s \<and> hsp e = hsp s \<and>
     unat (count (Cnt (aram_dma e))) = 8 * k \<and>
     (if transfers e
      then AR_DMA_CNT_L_write val s = Some s' \<and>
           (\<forall>j<k. count (Cnt (aram_dma (((\<lambda>x. advance (selected_chunk e x)) ^^ j) e))) \<noteq> 0) \<and>
           count (Cnt (aram_dma s')) = 0 \<and>
           MMAddr (aram_dma s') = (MMAddr (aram_dma s) AND 0x3ffffff) + 8 * of_nat k \<and>
           ARAddr (aram_dma s') = (ARAddr (aram_dma s) AND 0x3ffffff) + 8 * of_nat k \<and>
           unat (MMAddr (aram_dma s')) = unat (MMAddr (aram_dma s) AND 0x3ffffff) + 8 * k \<and>
           unat (ARAddr (aram_dma s')) = unat (ARAddr (aram_dma s) AND 0x3ffffff) + 8 * k
      else AR_DMA_CNT_L_write val s = Some e)"
proof -
  let ?w = "Cnt_L_written val s"
  let ?e = "loop_entry ?w"
  let ?k = "unat (count (Cnt (aram_dma ?e))) div 8"
  let ?it = "\<lambda>j. ((\<lambda>x. advance (selected_chunk ?e x)) ^^ j) ?e"
  have c: "Cnt (aram_dma ?e) = Cnt (aram_dma ?w)" by (simp add: loop_entry_def)
  have m: "8 dvd unat (count (Cnt (aram_dma ?w)))" by (rule Cnt_L_written_multiple)
  then have k: "unat (count (Cnt (aram_dma ?e))) = 8 * ?k" unfolding c by simp
  have r: "AR_DMA_CNT_L_write val s = Some (if transfers ?e then ?it ?k else ?e)"
    unfolding AR_DMA_CNT_L_write_def Do_ARAM_DMA_result [OF m] c ..
  have regs: "j \<le> ?k \<Longrightarrow>
      unat (count (Cnt (aram_dma (?it j)))) = 8 * (?k - j) \<and>
      dir (Cnt (aram_dma (?it j))) = dir (Cnt (aram_dma ?e)) \<and>
      MMAddr (aram_dma (?it j)) = MMAddr (aram_dma ?e) + 8 * of_nat j \<and>
      ARAddr (aram_dma (?it j)) = ARAddr (aram_dma ?e) + 8 * of_nat j" for j
    by (rule iterates_registers [OF selected_chunk_aram_dma k])
  have nz: "\<forall>j<?k. count (Cnt (aram_dma (?it j))) \<noteq> 0"
  proof (intro allI impI)
    fix j assume "j < ?k"
    with regs [of j] have "unat (count (Cnt (aram_dma (?it j)))) = 8 * (?k - j)" by simp
    with \<open>j < ?k\<close> show "count (Cnt (aram_dma (?it j))) \<noteq> 0" by auto
  qed
  from regs [of ?k] have z: "count (Cnt (aram_dma (?it ?k))) = 0"
    and mm: "MMAddr (aram_dma (?it ?k)) = MMAddr (aram_dma ?e) + 8 * of_nat ?k"
    and ar: "ARAddr (aram_dma (?it ?k)) = ARAddr (aram_dma ?e) + 8 * of_nat ?k"
    by (simp_all add: unat_eq_0)
  from k count_bound [of "Cnt (aram_dma ?e)"] have kb: "8 * ?k < 2 ^ 31" by simp
  have "unat (MMAddr (aram_dma ?e) + 8 * of_nat ?k) = unat (MMAddr (aram_dma ?e)) + 8 * ?k"
    by (rule address_after_chunks [OF _ kb]) (simp only: loop_entry_written masked_address_bound)
  then have umm: "unat (MMAddr (aram_dma (?it ?k))) = unat (MMAddr (aram_dma s) AND 0x3ffffff) + 8 * ?k"
    by (simp only: mm loop_entry_written(1))
  have "unat (ARAddr (aram_dma ?e) + 8 * of_nat ?k) = unat (ARAddr (aram_dma ?e)) + 8 * ?k"
    by (rule address_after_chunks [OF _ kb]) (simp only: loop_entry_written masked_address_bound)
  then have uar: "unat (ARAddr (aram_dma (?it ?k))) = unat (ARAddr (aram_dma s) AND 0x3ffffff) + 8 * ?k"
    by (simp only: ar loop_entry_written(2))
  show ?thesis
    unfolding Let_def
    using k r nz z mm ar umm uar by (simp add: loop_entry_written)
qed

theorem ARAM_DMA_trigger_chunks_witness:
  "transfers (loop_entry (Cnt_L_written 0x20 gamecube_state)) \<and>
   AR_DMA_CNT_L_write 0x20 gamecube_state \<noteq> None \<and>
   count (Cnt (aram_dma (the (AR_DMA_CNT_L_write 0x20 gamecube_state)))) = 0 \<and>
   MMAddr (aram_dma (the (AR_DMA_CNT_L_write 0x20 gamecube_state))) = 0x2020 \<and>
   ARAddr (aram_dma (the (AR_DMA_CNT_L_write 0x20 gamecube_state))) = 0x20"
proof -
  have t: "transfers (loop_entry (Cnt_L_written 0x20 gamecube_state))"
    by (simp add: transfers_def loop_entry_def Cnt_L_written_def fixture_defs)
  have k: "unat (count (Cnt (aram_dma (loop_entry (Cnt_L_written 0x20 gamecube_state))))) div 8 = 4"
    by (simp add: loop_entry_def Cnt_L_written_def count_def fixture_defs)
  have a: "MMAddr (aram_dma gamecube_state) = 0x2000" "ARAddr (aram_dma gamecube_state) = 0"
    by (simp_all add: fixture_defs)
  from ARAM_DMA_trigger_chunks [of "0x20" gamecube_state] t
  show ?thesis unfolding Let_def k a by simp
qed

text \<open>
  The claim as stated has the count end at 0 after every trigger; on a Wii with 32 MiB of
  extended memory and the aux-RAM address at 32 MiB, a trigger for 32 bytes returns with
  the count still 32 and the address not advanced.
\<close>

theorem ARAM_DMA_trigger_beyond_aliased:
  "AR_DMA_CNT_L_write 0x20 wii_beyond_state \<noteq> None \<and>
   count (Cnt (aram_dma (the (AR_DMA_CNT_L_write 0x20 wii_beyond_state)))) = 0x20 \<and>
   count (Cnt (aram_dma (the (AR_DMA_CNT_L_write 0x20 wii_beyond_state)))) \<noteq> 0 \<and>
   ARAddr (aram_dma (the (AR_DMA_CNT_L_write 0x20 wii_beyond_state))) = 0x02000000"
  by (simp add: AR_DMA_CNT_L_write_def Do_ARAM_DMA_entry transfers_def loop_entry_def
      Cnt_L_written_def count_def fixture_defs)


subsection \<open>The branches on the descriptor tag\<close>

lemma upt_0_8: "[0..<8] = [0, 1, 2, 3, 4, 5, 6, 7 :: nat]"
  by (simp add: upt_rec)

lemma store_u64_ptr:
  "ptr (aram (store_u64 i v s)) n =
     (if i \<le> n \<and> n < i + 8 then byte_of v (n - i) else ptr (aram s) n)"
proof (cases "i \<le> n \<and> n < i + 8")
  case True
  then have "n - i \<in> {0, 1, 2, 3, 4, 5, 6, 7}" by auto
  then obtain j where j: "j \<in> {0, 1, 2, 3, 4, 5, 6, 7 :: nat}" "n - i = j" by blast
  with True have n: "n = i + j" by auto
  from j(1) show ?thesis unfolding n store_u64_def upt_0_8 by auto
next
  case False
  then show ?thesis unfolding store_u64_def upt_0_8 by auto
qed

lemma store_u64_frame:
  "aram_dma (store_u64 i v s) = aram_dma s" "aram_info (store_u64 i v s) = aram_info s"
  "ram (store_u64 i v s) = ram s" "mask_aram (aram (store_u64 i v s)) = mask_aram (aram s)"
  "Read_U64 a (store_u64 i v s) = Read_U64 a s"
  by (simp_all add: store_u64_def Read_U64_def)

lemma chunk_ARAM_to_MRAM_collapses: "chunk_ARAM_to_MRAM = chunk_ARAM_to_MRAM_single"
  by (rule ext) (simp add: chunk_ARAM_to_MRAM_def chunk_ARAM_to_MRAM_single_def)

lemma chunk_MRAM_to_ARAM_other_tags:
  "aram_info s AND 0xf \<noteq> 4 \<Longrightarrow> chunk_MRAM_to_ARAM s = chunk_MRAM_to_ARAM_single s"
  by (simp add: chunk_MRAM_to_ARAM_def chunk_MRAM_to_ARAM_single_def)

lemma dma_loop_MRAM_to_ARAM_other_tags:
  assumes "aram_info s AND 0xf \<noteq> 4"
  shows "dma_loop chunk_MRAM_to_ARAM s = dma_loop chunk_MRAM_to_ARAM_single s"
proof (rule dma_loop_cong [where P = "\<lambda>t :: System. aram_info t AND 0xf \<noteq> 4"])
  show "aram_info s AND 0xf \<noteq> 4" by (rule assms)
next
  fix t :: System assume "aram_info t AND 0xf \<noteq> 4"
  then show "chunk_MRAM_to_ARAM t = chunk_MRAM_to_ARAM_single t"
    by (rule chunk_MRAM_to_ARAM_other_tags)
next
  fix t :: System assume "aram_info t AND 0xf \<noteq> 4"
  then show "aram_info (advance (chunk_MRAM_to_ARAM t)) AND 0xf \<noteq> 4"
    by (simp add: advance_frame chunk_defs)
qed

text \<open>
  Claim C3, as amended. From the aux RAM to main memory the three branches on the
  descriptor tag are one: the loop body is that of the single default path. From main
  memory to the aux RAM the body is the default path too, but for the tag 4 it is
  preceded by a second store of the same eight bytes at the aux-RAM address plus
  0x400000, as long as that address is below 0x400000. So for every starting state whose
  direction bit is set or whose tag is not 4, \<open>Do_ARAM_DMA\<close> and the transfer with the
  single path agree: both return the same state or both do not return.
\<close>

theorem tag_branches_collapse:
  "chunk_ARAM_to_MRAM s = chunk_ARAM_to_MRAM_single s \<and>
   chunk_MRAM_to_ARAM s =
     chunk_MRAM_to_ARAM_single
       (if aram_info s AND 0xf = 4 \<and> ARAddr (aram_dma s) < 0x400000
        then store_u64 (unat ((ARAddr (aram_dma s) + 0x400000) AND mask_aram (aram s)))
               (swap64 (Read_U64 (MMAddr (aram_dma s)) s)) s
        else s) \<and>
   (dir (Cnt (aram_dma s)) \<or> aram_info s AND 0xf \<noteq> 4 \<longrightarrow>
      Do_ARAM_DMA s = Do_ARAM_DMA_single s)"
proof (intro conjI impI)
  show "chunk_ARAM_to_MRAM s = chunk_ARAM_to_MRAM_single s"
    by (simp add: chunk_ARAM_to_MRAM_collapses)
  show "chunk_MRAM_to_ARAM s =
     chunk_MRAM_to_ARAM_single
       (if aram_info s AND 0xf = 4 \<and> ARAddr (aram_dma s) < 0x400000
        then store_u64 (unat ((ARAddr (aram_dma s) + 0x400000) AND mask_aram (aram s)))
               (swap64 (Read_U64 (MMAddr (aram_dma s)) s)) s
        else s)"
    by (simp add: chunk_MRAM_to_ARAM_def chunk_MRAM_to_ARAM_single_def Let_def)
  assume h: "dir (Cnt (aram_dma s)) \<or> aram_info s AND 0xf \<noteq> 4"
  show "Do_ARAM_DMA s = Do_ARAM_DMA_single s"
  proof (cases "dir (Cnt (aram_dma s))")
    case True
    then show ?thesis
      by (simp add: Do_ARAM_DMA_def Do_ARAM_DMA_single_def Let_def ScheduleEvent_def
          chunk_ARAM_to_MRAM_collapses)
  next
    case False
    with h have t: "aram_info s AND 0xf \<noteq> 4" by simp
    from False t show ?thesis
      by (simp add: Do_ARAM_DMA_def Do_ARAM_DMA_single_def Let_def ScheduleEvent_def
          dma_loop_MRAM_to_ARAM_other_tags)
  qed
qed

theorem tag_branches_collapse_witness:
  "(dir (Cnt (aram_dma (tag4_state\<lparr>aram_info := 3\<rparr>))) \<or>
      aram_info (tag4_state\<lparr>aram_info := 3\<rparr>) AND 0xf \<noteq> 4) \<and>
   Do_ARAM_DMA (tag4_state\<lparr>aram_info := 3\<rparr>) = Do_ARAM_DMA_single (tag4_state\<lparr>aram_info := 3\<rparr>)"
  using tag_branches_collapse [of "tag4_state\<lparr>aram_info := 3\<rparr>"] by simp

lemma MRAM_to_ARAM_keeps:
  "aram_info (advance (chunk_MRAM_to_ARAM s)) = aram_info s"
  "mask_aram (aram (advance (chunk_MRAM_to_ARAM s))) = mask_aram (aram s)"
  "ram (advance (chunk_MRAM_to_ARAM s)) = ram s"
  "mask_aram (aram (advance (chunk_MRAM_to_ARAM_single s))) = mask_aram (aram s)"
  by (simp_all add: advance_frame chunk_defs)

lemma MRAM_to_ARAM_aram_dma:
  "aram_dma (chunk_MRAM_to_ARAM s) = aram_dma s"
  "aram_dma (chunk_MRAM_to_ARAM_single s) = aram_dma s"
  by (simp_all add: chunk_defs)

lemma single_chunk_untouched:
  assumes "unat (ARAddr (aram_dma t) AND mask_aram (aram t)) + 8 \<le> n"
  shows "ptr (aram (advance (chunk_MRAM_to_ARAM_single t))) n = ptr (aram t) n"
  using assms by (simp add: advance_frame chunk_MRAM_to_ARAM_single_def store_u64_ptr)

lemma single_chunks_untouched:
  assumes k: "unat (count (Cnt (aram_dma e))) = 8 * k"
    and a: "ARAddr (aram_dma e) = 0" and n: "8 * k \<le> n"
  shows "j \<le> k \<Longrightarrow>
         ptr (aram (((\<lambda>x. advance (chunk_MRAM_to_ARAM_single x)) ^^ j) e)) n = ptr (aram e) n"
proof (induction j)
  case 0
  then show ?case by simp
next
  case (Suc j)
  let ?t = "((\<lambda>x. advance (chunk_MRAM_to_ARAM_single x)) ^^ j) e"
  from Suc.prems have jk: "j \<le> k" by simp
  from iterates_registers [OF MRAM_to_ARAM_aram_dma(2) k jk] a
  have ar: "ARAddr (aram_dma ?t) = 8 * of_nat j" by simp
  from k count_bound [of "Cnt (aram_dma e)"] Suc.prems have "8 * j < 2 ^ 32" by simp
  then have "unat (of_nat (8 * j) :: u32) = 8 * j"
    by (simp only: unat_of_nat) simp
  then have u: "unat ((8 :: u32) * of_nat j) = 8 * j" by simp
  have "8 * of_nat j AND mask_aram (aram ?t) \<le> (8 :: u32) * of_nat j" by (rule word_and_le2)
  then have "unat (8 * of_nat j AND mask_aram (aram ?t)) \<le> 8 * j"
    using u by (simp add: word_le_nat_alt)
  with Suc.prems n have "unat (ARAddr (aram_dma ?t) AND mask_aram (aram ?t)) + 8 \<le> n"
    unfolding ar by simp
  then have "ptr (aram (advance (chunk_MRAM_to_ARAM_single ?t))) n = ptr (aram ?t) n"
    by (rule single_chunk_untouched)
  with Suc.IH [OF jk] show ?case by simp
qed

lemma tag4_chunk_mirrors:
  assumes "aram_info t = 4" and "ARAddr (aram_dma t) = 24" and "MMAddr (aram_dma t) = 24"
    and "mask_aram (aram t) = 0xFFFFFF" and "ram t = ram power_on"
  shows "ptr (aram (advance (chunk_MRAM_to_ARAM t))) 0x400018 = 25"
proof -
  have r: "Read_U64 24 t = 0x191A1B1C1D1E1F20"
    by (simp add: Read_U64_def assms power_on_def upt_0_8 cat_bytes_def)
  have b: "byte_of (swap64 0x191A1B1C1D1E1F20) 0 = 25"
    by (simp add: swap64_def byte_of_def upt_0_8 cat_bytes_def)
  show ?thesis
    by (simp add: advance_frame chunk_MRAM_to_ARAM_def Let_def store_u64_ptr store_u64_frame
        assms(1-4) r b)
qed


lemma tag4_entry:
  "aram_dma (loop_entry tag4_state) = \<lparr>MMAddr = 0, ARAddr = 0, Cnt = 0x20\<rparr>"
  "aram_info (loop_entry tag4_state) = 4"
  "mask_aram (aram (loop_entry tag4_state)) = 0xFFFFFF"
  "ram (loop_entry tag4_state) = ram power_on"
  "ptr (aram (loop_entry tag4_state)) n = 0"
  "unat (count (Cnt (aram_dma (loop_entry tag4_state)))) = 8 * 4"
  by (simp_all add: loop_entry_def count_def fixture_defs)

text \<open>
  The claim as stated has the branch for the tag 4 transfer as the default path does;
  with the tag 4, 32 bytes copied from main memory to the aux-RAM address 0 also arrive
  at 0x400000 and after: the byte at 0x400018 is 25 after \<open>Do_ARAM_DMA\<close> and still 0
  after the transfer with the single path.
\<close>

theorem tag4_mirror_write:
  "Do_ARAM_DMA tag4_state \<noteq> None \<and> Do_ARAM_DMA_single tag4_state \<noteq> None \<and>
   ptr (aram (the (Do_ARAM_DMA tag4_state))) 0x400018 = 25 \<and>
   ptr (aram (the (Do_ARAM_DMA_single tag4_state))) 0x400018 = 0"
proof -
  let ?e = "loop_entry tag4_state"
  let ?f = "\<lambda>x. advance (chunk_MRAM_to_ARAM x)"
  let ?g = "\<lambda>x. advance (chunk_MRAM_to_ARAM_single x)"
  have l: "Do_ARAM_DMA tag4_state = dma_loop chunk_MRAM_to_ARAM ?e"
    by (simp add: Do_ARAM_DMA_entry transfers_def selected_chunk_def tag4_entry dir_def)
      (simp add: loop_entry_def fixture_defs)
  have r: "Do_ARAM_DMA_single tag4_state = dma_loop chunk_MRAM_to_ARAM_single ?e"
    by (simp add: Do_ARAM_DMA_single_def loop_entry_def ScheduleEvent_def dir_def fixture_defs)
  have l': "Do_ARAM_DMA tag4_state = Some ((?f ^^ 4) ?e)"
    unfolding l by (rule dma_loop_iterates [OF MRAM_to_ARAM_aram_dma(1) tag4_entry(6)])
  have r': "Do_ARAM_DMA_single tag4_state = Some ((?g ^^ 4) ?e)"
    unfolding r by (rule dma_loop_iterates [OF MRAM_to_ARAM_aram_dma(2) tag4_entry(6)])
  let ?t = "(?f ^^ 3) ?e"
  have s4: "(?f ^^ 4) ?e = advance (chunk_MRAM_to_ARAM ?t)"
    by (simp add: numeral_Bit0 numeral_Bit1)
  from iterates_registers [OF MRAM_to_ARAM_aram_dma(1) tag4_entry(6), of 3]
  have regs: "ARAddr (aram_dma ?t) = 24" "MMAddr (aram_dma ?t) = 24"
    by (simp_all add: tag4_entry)
  have obs: "aram_info ?t = 4" "mask_aram (aram ?t) = 0xFFFFFF" "ram ?t = ram power_on"
    using iterates_obs [of aram_info chunk_MRAM_to_ARAM 3 ?e, OF MRAM_to_ARAM_keeps(1)]
      iterates_obs [of "\<lambda>s. mask_aram (aram s)" chunk_MRAM_to_ARAM 3 ?e, OF MRAM_to_ARAM_keeps(2)]
      iterates_obs [of ram chunk_MRAM_to_ARAM 3 ?e, OF MRAM_to_ARAM_keeps(3)]
    by (simp_all add: tag4_entry)
  have p: "ptr (aram ((?f ^^ 4) ?e)) 0x400018 = 25"
    unfolding s4 by (rule tag4_chunk_mirrors [OF obs(1) regs obs(2) obs(3)])
  have "ptr (aram ((?g ^^ 4) ?e)) 0x400018 = ptr (aram ?e) 0x400018"
    by (rule single_chunks_untouched [OF tag4_entry(6)]) (simp_all add: tag4_entry)
  then have q: "ptr (aram ((?g ^^ 4) ?e)) 0x400018 = 0" by (simp add: tag4_entry)
  show ?thesis unfolding l' r' using p q by simp
qed

section \<open>The interrupt line across the operations of the device\<close>









lemma asserted_state_line:
  "line_ok asserted_state" "int_cause_dsp asserted_state"
proof -
  show l: "line_ok asserted_state"
    unfolding asserted_state_def by (rule GenerateDSPInterrupt_ok)
  have "AID (dsp_control asserted_state)" "AID_mask (dsp_control asserted_state)"
    unfolding asserted_state_def GenerateDSPInterrupt_control DSP_CONTROL_write_def
      UpdateInterrupts_control AID_def AID_mask_def Let_def
    by (simp_all add: bit_simps bit_assign_pad bit_assign_bit tmpControl_bit INT_AID_def)
  with l show "int_cause_dsp asserted_state"
    by (simp add: line_ok_def interrupt_asserted_def)
qed



text \<open>
  The claim as stated has the equivalence in every state of the device. On a GameCube
  with the AID interrupt enabled and pending the line is asserted; \<open>Reinit\<close> then stores
  4 in the control register and does not recompute the line, which stays asserted with
  no source enabled and pending.
\<close>

theorem Reinit_leaves_line_asserted:
  "line_ok asserted_state \<and> int_cause_dsp asserted_state \<and>
   int_cause_dsp (Reinit GameCube True asserted_state) \<and>
   \<not> interrupt_asserted (dsp_control (Reinit GameCube True asserted_state)) \<and>
   \<not> line_ok (Reinit GameCube True asserted_state)"
proof -
  have a: "line_ok asserted_state" by (rule asserted_state_line)
  have c: "dsp_control (Reinit GameCube True asserted_state) = 4"
    "int_cause_dsp (Reinit GameCube True asserted_state) = int_cause_dsp asserted_state"
    by (simp_all add: Reinit_def Let_def assign_bit_def GameCube_def)
  have n: "\<not> interrupt_asserted 4"
    by (simp add: interrupt_asserted_def DSP_def DSP_mask_def ARAM_def ARAM_mask_def AID_def
        AID_mask_def)
  show ?thesis using a c n asserted_state_line(2) by (simp add: line_ok_def)
qed

section \<open>What a trigger of the ARAM DMA moves\<close>

subsection \<open>Bytes of a 64-bit value\<close>














subsection \<open>What a chunk moves\<close>













subsection \<open>The chunks of a transfer\<close>








subsection \<open>The count the registers stage\<close>










subsection \<open>The transfer of each direction\<close>








subsection \<open>The trigger and its completion\<close>



text \<open>
  On a Wii with 32 MiB of extended memory, the aux-RAM address register written to
  32 MiB, a trigger for 32 bytes sets the flag and schedules the callback, and copies
  nothing: main memory, the buffer and the HSP store are as before, the count is still
  32, and the byte the copy would have stored at index 0 of the buffer is not there.
  The callback then raises the ARAM interrupt over a buffer that no copy has touched.
\<close>

theorem ARAM_DMA_beyond_buffer_copies_nothing:
  "run [W_AR_DMA_ARADDR_H 0x0200] (Reinit Wii_32MiB True power_on) = Some wii_beyond_state \<and>
   AR_DMA_CNT_L_write 0x20 wii_beyond_state \<noteq> None \<and>
   DMAState (dsp_control (the (AR_DMA_CNT_L_write 0x20 wii_beyond_state))) \<and>
   scheduled (the (AR_DMA_CNT_L_write 0x20 wii_beyond_state)) = [(246, ARAMint, 0)] \<and>
   count (Cnt (aram_dma (the (AR_DMA_CNT_L_write 0x20 wii_beyond_state)))) = 0x20 \<and>
   ram (the (AR_DMA_CNT_L_write 0x20 wii_beyond_state)) = ram wii_beyond_state \<and>
   aram (the (AR_DMA_CNT_L_write 0x20 wii_beyond_state)) = aram wii_beyond_state \<and>
   hsp (the (AR_DMA_CNT_L_write 0x20 wii_beyond_state)) = hsp wii_beyond_state \<and>
   ram wii_beyond_state 0 = 1 \<and>
   ptr (aram (the (AR_DMA_CNT_L_write 0x20 wii_beyond_state))) 0 = 0 \<and>
   ARAM (dsp_control (fire ARAMint 0 0 (the (AR_DMA_CNT_L_write 0x20 wii_beyond_state)))) \<and>
   aram (fire ARAMint 0 0 (the (AR_DMA_CNT_L_write 0x20 wii_beyond_state))) = aram wii_beyond_state"
proof -
  let ?e = "loop_entry (Cnt_L_written 0x20 wii_beyond_state)"
  have reach: "run [W_AR_DMA_ARADDR_H 0x0200] (Reinit Wii_32MiB True power_on) = Some wii_beyond_state"
    by (simp add: AR_DMA_ARADDR_H_write_def HighPart_update_def DirectWrite_def
        WMASK_AR_HI_RESTRICT_def fixture_defs)
  have n: "\<not> transfers ?e"
    by (simp add: transfers_def loop_entry_def Cnt_L_written_def fixture_defs)
  have r: "AR_DMA_CNT_L_write 0x20 wii_beyond_state = Some ?e"
    unfolding AR_DMA_CNT_L_write_def Do_ARAM_DMA_entry using n by simp
  have f: "ram ?e = ram wii_beyond_state" "aram ?e = aram wii_beyond_state"
    "hsp ?e = hsp wii_beyond_state"
    by (rule loop_entry_written)+
  have c: "count (Cnt (aram_dma ?e)) = 0x20"
    by (simp add: loop_entry_def Cnt_L_written_def count_def fixture_defs)
  have s: "scheduled ?e = [(246, ARAMint, 0)]"
    by (simp add: loop_entry_def Cnt_L_written_def count_def fixture_defs)
  have m: "DMAState (dsp_control ?e)"
    unfolding loop_entry_written by (simp add: DMAState_def bit_assign_bit)
  have b: "ram wii_beyond_state 0 = 1" "ptr (aram wii_beyond_state) 0 = 0"
    by (simp_all add: fixture_defs)
  have a: "ARAM (dsp_control (fire ARAMint 0 0 ?e))" "aram (fire ARAMint 0 0 ?e) = aram ?e"
    unfolding fire.simps using CompleteARAM_effect [of 0 0 ?e] by blast+
  show ?thesis
    unfolding r option.sel f a(2) using reach m s c b a(1) by simp
qed

end
